theory Spec2Isabelle
  imports Complex_Main
begin

section \<open>Origin guard (httpTransport.ts, createHttpApp)\<close>

text \<open>
  A request header read with \<open>c.req.header(name)\<close> is \<open>undefined\<close> (\<open>None\<close>) or a string,
  possibly the empty one. JavaScript's truthiness test on such a value, as in
  \<open>if (origin && ...)\<close> and \<open>if (providedSessionId)\<close>, fails for both \<open>undefined\<close> and \<open>''\<close>.
\<close>

definition truthy :: "string option \<Rightarrow> bool" where
  "truthy h = (case h of None \<Rightarrow> False | Some s \<Rightarrow> s \<noteq> [])"

text \<open>
  \<open>allowedOriginsList\<close>: the configured list when it is an array of positive length,
  otherwise \<open>undefined\<close>. The configuration value \<open>config.mcpAllowedOrigins\<close> is a parameter.
\<close>

definition allowedOriginsList :: "string list option \<Rightarrow> string list option" where
  "allowedOriginsList mcpAllowedOrigins =
     (case mcpAllowedOrigins of
        None \<Rightarrow> None
      | Some l \<Rightarrow> if length l > 0 then Some l else None)"

definition dnsProtectionEnabled :: "string list option \<Rightarrow> bool" where
  "dnsProtectionEnabled mcpAllowedOrigins =
     (case allowedOriginsList mcpAllowedOrigins of
        None \<Rightarrow> False
      | Some l \<Rightarrow> length l > 0)"

datatype guard_outcome = Continue | Reject nat string

definition originGuard :: "string list option \<Rightarrow> string option \<Rightarrow> guard_outcome" where
  "originGuard mcpAllowedOrigins origin =
     (case origin of
        None \<Rightarrow> Continue
      | Some h \<Rightarrow>
          if truthy origin \<and> dnsProtectionEnabled mcpAllowedOrigins then
            (let isAllowed =
               (case allowedOriginsList mcpAllowedOrigins of
                  None \<Rightarrow> True
                | Some l \<Rightarrow> h \<in> set l)
             in if \<not> isAllowed
                then Reject 403 ''Invalid origin. DNS rebinding protection.''
                else Continue)
          else Continue)"

text \<open>The three ways of passing that the specification names.\<close>

definition listEmptyOrAbsent :: "string list option \<Rightarrow> bool" where
  "listEmptyOrAbsent L = (case L of None \<Rightarrow> True | Some l \<Rightarrow> l = [])"

definition headerListed :: "string list option \<Rightarrow> string option \<Rightarrow> bool" where
  "headerListed L h =
     (case L of
        None \<Rightarrow> False
      | Some l \<Rightarrow> (case h of None \<Rightarrow> False | Some s \<Rightarrow> s \<in> set l))"

section \<open>Port-bind retry launcher (httpTransport.ts)\<close>

text \<open>
  What \<open>tempServer.listen(port, host)\<close> does in \<open>isPortInUse\<close> is the environment's choice:
  the throwaway server starts listening, emits an \<open>error\<close> event with a code, or \<open>listen\<close>
  throws inside the promise executor, which rejects the promise.
\<close>

datatype listen_outcome = Listening | ErrorEvent string | ListenThrows string

definition isPortInUse :: "(nat \<Rightarrow> listen_outcome) \<Rightarrow> nat \<Rightarrow> string + bool" where
  "isPortInUse probe port =
     (case probe port of
        Listening \<Rightarrow> Inr False
      | ErrorEvent code \<Rightarrow> Inr (code = ''EADDRINUSE'')
      | ListenThrows err \<Rightarrow> Inl err)"

text \<open>
  The call \<open>serve(...)\<close> either throws, which the \<open>catch\<close> around it turns into a retry on
  the next port, or returns the server object at once. In the second case the promise is
  resolved with that object in the next statement, and what the server's own \<open>listen\<close>
  does arrives afterwards: the listening callback (\<open>None\<close>) or an \<open>error\<close> event with a
  code (\<open>Some code\<close>), for which the launcher has installed no handler.
\<close>

datatype serve_outcome = ServeThrows string | ServeReturns "string option"

text \<open>
  \<open>BindResolved port later\<close>: the promise was resolved with the server made for \<open>port\<close>,
  whose bind then went as \<open>later\<close> says. \<open>BindFatal port attempt\<close> is the rejection logged
  with \<open>logger.fatal\<close> (with the port and attempt of its context); \<open>BindRejected\<close> is the
  rejection of the outer \<open>catch\<close>.
\<close>

datatype bind_result = BindResolved nat "string option" | BindFatal nat nat | BindRejected string

function tryBind ::
  "(nat \<Rightarrow> listen_outcome) \<Rightarrow> (nat \<Rightarrow> serve_outcome) \<Rightarrow> int \<Rightarrow> nat \<Rightarrow> nat \<Rightarrow> bind_result"
  where
  "tryBind probe serve maxRetries port attempt =
     (if int attempt > maxRetries + 1 then BindFatal port attempt
      else
        (case isPortInUse probe port of
           Inl err \<Rightarrow> BindRejected err
         | Inr inUse \<Rightarrow>
             if inUse then tryBind probe serve maxRetries (port + 1) (attempt + 1)
             else
               (case serve port of
                  ServeThrows err \<Rightarrow> tryBind probe serve maxRetries (port + 1) (attempt + 1)
                | ServeReturns later \<Rightarrow> BindResolved port later)))"
  by pat_completeness auto
termination
  by (relation "measure (\<lambda>(probe, serve, maxRetries, port, attempt).
        nat (maxRetries + 2 - int attempt))") auto

definition startHttpServerWithRetry ::
  "(nat \<Rightarrow> listen_outcome) \<Rightarrow> (nat \<Rightarrow> serve_outcome) \<Rightarrow> nat \<Rightarrow> int \<Rightarrow> bind_result" where
  "startHttpServerWithRetry probe serve initialPort maxRetries =
     tryBind probe serve maxRetries initialPort 1"

text \<open>A port from which the launcher moves on to the next one: the probe finds it in
  use, or \<open>serve\<close> throws on it.\<close>

definition portBlocked ::
  "(nat \<Rightarrow> listen_outcome) \<Rightarrow> (nat \<Rightarrow> serve_outcome) \<Rightarrow> nat \<Rightarrow> bool" where
  "portBlocked probe serve port =
     (case isPortInUse probe port of
        Inl err \<Rightarrow> False
      | Inr inUse \<Rightarrow>
          inUse \<or> (case serve port of ServeThrows err \<Rightarrow> True | ServeReturns later \<Rightarrow> False))"

text \<open>The scenario of the specification: ports \<open>P\<close>, \<open>P+1\<close>, \<open>P+2\<close> occupied, all others
  free, and every bind succeeds.\<close>

definition threeOccupied :: "nat \<Rightarrow> nat \<Rightarrow> listen_outcome" where
  "threeOccupied P port =
     (if port = P \<or> port = P + 1 \<or> port = P + 2 then ErrorEvent ''EADDRINUSE'' else Listening)"

definition bindSucceeds :: "nat \<Rightarrow> serve_outcome" where
  "bindSucceeds port = ServeReturns None"

text \<open>A race with another process: every port probes as free, and the bind on port 3010
  fails with \<open>EADDRINUSE\<close> after \<open>serve\<close> has returned; all other binds succeed.\<close>

definition raceOn3010 :: "nat \<Rightarrow> serve_outcome" where
  "raceOn3010 port = (if port = 3010 then ServeReturns (Some ''EADDRINUSE'') else ServeReturns None)"

section \<open>Session store\<close>

text \<open>
  The identity of a caller, as \<open>extractSessionIdentity\<close> builds it from the authentication
  context: only truthy (non-empty) fields are copied, and an identity without any field is
  \<open>undefined\<close>.
\<close>

record SessionIdentity =
  tenantId :: "string option"
  clientId :: "string option"
  subject :: "string option"

record AuthInfo =
  authTenantId :: "string option"
  authClientId :: "string option"
  authSubject :: "string option"

definition truthyValue :: "string option \<Rightarrow> string option" where
  "truthyValue h = (case h of None \<Rightarrow> None | Some s \<Rightarrow> if s \<noteq> [] then Some s else None)"

definition extractSessionIdentity :: "AuthInfo option \<Rightarrow> SessionIdentity option" where
  "extractSessionIdentity authInfo =
     (case authInfo of
        None \<Rightarrow> None
      | Some a \<Rightarrow>
          (let identity = \<lparr> tenantId = truthyValue (authTenantId a),
                            clientId = truthyValue (authClientId a),
                            subject = truthyValue (authSubject a) \<rparr>
           in if tenantId identity \<noteq> None \<or> clientId identity \<noteq> None \<or> subject identity \<noteq> None
              then Some identity else None))"

record Session =
  identity :: "SessionIdentity option"
  createdAt :: int
  lastAccessedAt :: int

record SessionStore =
  staleTimeoutMs :: int
  sessions :: "string \<rightharpoonup> Session"

text \<open>Modelled from the spec: the class \<open>SessionStore\<close> (sessionStore.ts) is not among the
  sources. Section 4.2 of the specification gives its three operations and the staleness
  policy: a record is stale when \<open>now - lastAccessedAt > staleTimeoutMs\<close>, checked lazily
  on lookup. The clock reading \<open>now\<close> is a parameter.
\<close>

definition isStale :: "SessionStore \<Rightarrow> int \<Rightarrow> Session \<Rightarrow> bool" where
  "isStale store now r = (now - lastAccessedAt r > staleTimeoutMs store)"

text \<open>Modelled from the spec: a record created with no identity matches any presented
  identity; a record created with an identity only matches the identical identity.
\<close>

definition identityMatches :: "SessionIdentity option \<Rightarrow> SessionIdentity option \<Rightarrow> bool" where
  "identityMatches bound presented =
     (case bound of
        None \<Rightarrow> True
      | Some b \<Rightarrow> (case presented of None \<Rightarrow> False | Some q \<Rightarrow> q = b))"

text \<open>Modelled from the spec: \<open>getOrCreate\<close> returns a live record after refreshing
  \<open>lastAccessedAt\<close>, otherwise creates a new record with the given identity and the
  current timestamp.
\<close>

definition getOrCreate ::
  "SessionStore \<Rightarrow> string \<Rightarrow> SessionIdentity option \<Rightarrow> int \<Rightarrow> Session \<times> SessionStore" where
  "getOrCreate store sessionId ident now =
     (let fresh = \<lparr> identity = ident, createdAt = now, lastAccessedAt = now \<rparr>;
          r = (case sessions store sessionId of
                 None \<Rightarrow> fresh
               | Some old \<Rightarrow> if isStale store now old then fresh
                             else old\<lparr> lastAccessedAt := now \<rparr>)
      in (r, store\<lparr> sessions := (sessions store)(sessionId \<mapsto> r) \<rparr>))"

text \<open>Modelled from the spec: \<open>isValidForIdentity\<close> returns false if no live record exists,
  if the record is stale (evicting it as a side effect), or if the bound identity differs
  from the presented one.
\<close>

definition isValidForIdentity ::
  "SessionStore \<Rightarrow> string \<Rightarrow> SessionIdentity option \<Rightarrow> int \<Rightarrow> bool \<times> SessionStore" where
  "isValidForIdentity store sessionId ident now =
     (case sessions store sessionId of
        None \<Rightarrow> (False, store)
      | Some r \<Rightarrow>
          if isStale store now r
          then (False, store\<lparr> sessions := (sessions store)(sessionId := None) \<rparr>)
          else (identityMatches (identity r) ident, store))"

text \<open>Modelled from the spec: \<open>terminate\<close> removes the record unconditionally.\<close>

definition terminate :: "SessionStore \<Rightarrow> string \<Rightarrow> SessionStore" where
  "terminate store sessionId = store\<lparr> sessions := (sessions store)(sessionId := None) \<rparr>"

section \<open>Session resolution (httpTransport.ts, createHttpApp)\<close>

text \<open>
  A transport is an object of the SDK; the model keeps its identity (the number of
  transports constructed before it) and what its constructor was given: a stateless
  transport has no session callbacks, a stateful one has \<open>onsessioninitialized\<close> and
  \<open>onsessionclosed\<close>, which close over the identity of the creating caller.
\<close>

datatype transport_kind = Stateless | Stateful "SessionIdentity option"

record Transport =
  transportId :: nat
  kind :: transport_kind

text \<open>
  The state that \<open>createHttpApp\<close> sets up and its request handlers share.
  \<open>closeCalls\<close> lists the transports on which \<open>close()\<close> has been called.
\<close>

record Config =
  mcpSessionMode :: string
  mcpStatefulSessionStaleTimeoutMs :: int
  mcpAllowedOrigins :: "string list option"

record App =
  config :: Config
  isStatefulMode :: bool
  sessionStore :: "SessionStore option"
  sessionTransports :: "string \<rightharpoonup> Transport"
  transportsCreated :: nat
  closeCalls :: "nat list"

definition createHttpApp :: "Config \<Rightarrow> App" where
  "createHttpApp cfg =
     (let stateful = (mcpSessionMode cfg = ''stateful'') in
      \<lparr> config = cfg,
        isStatefulMode = stateful,
        sessionStore =
          (if stateful
           then Some \<lparr> staleTimeoutMs = mcpStatefulSessionStaleTimeoutMs cfg,
                       sessions = Map.empty \<rparr>
           else None),
        sessionTransports = Map.empty,
        transportsCreated = 0,
        closeCalls = [] \<rparr>)"

definition createStatelessTransport :: "App \<Rightarrow> Transport \<times> App" where
  "createStatelessTransport app =
     (\<lparr> transportId = transportsCreated app, kind = Stateless \<rparr>,
      app\<lparr> transportsCreated := transportsCreated app + 1 \<rparr>)"

datatype failure = StoreMissing | BindingsMissing | ConnectFailed | HandleRequestFailed

definition createStatefulTransport ::
  "App \<Rightarrow> SessionIdentity option \<Rightarrow> failure + Transport \<times> App" where
  "createStatefulTransport app ident =
     (case sessionStore app of
        None \<Rightarrow> Inl StoreMissing
      | Some store \<Rightarrow>
          Inr (\<lparr> transportId = transportsCreated app, kind = Stateful ident \<rparr>,
               app\<lparr> transportsCreated := transportsCreated app + 1 \<rparr>))"

text \<open>The two session callbacks of a stateful transport.\<close>

definition onsessioninitialized ::
  "Transport \<Rightarrow> SessionIdentity option \<Rightarrow> int \<Rightarrow> string \<Rightarrow> App \<Rightarrow> App" where
  "onsessioninitialized transport ident now sessionId app =
     app\<lparr> sessionTransports := (sessionTransports app)(sessionId \<mapsto> transport),
          sessionStore :=
            map_option (\<lambda>store. snd (getOrCreate store sessionId ident now)) (sessionStore app) \<rparr>"

definition onsessionclosed :: "string option \<Rightarrow> App \<Rightarrow> App" where
  "onsessionclosed sessionId app =
     (case truthyValue sessionId of
        None \<Rightarrow> app
      | Some sid \<Rightarrow>
          app\<lparr> sessionTransports := (sessionTransports app)(sid := None),
               sessionStore := map_option (\<lambda>store. terminate store sid) (sessionStore app) \<rparr>)"

text \<open>
  Request bodies are JSON values. \<open>isInitializeRequest\<close> is the SDK's test for the
  protocol's initialize envelope; it is a parameter of the model.
\<close>

datatype json =
  JNull | JBool bool | JNum rat | JStr string | JArr "json list" | JObj "(string \<times> json) list"

fun jsonFalsy :: "json \<Rightarrow> bool" where
  "jsonFalsy JNull = True"
| "jsonFalsy (JBool b) = (\<not> b)"
| "jsonFalsy (JNum r) = (r = 0)"
| "jsonFalsy (JStr s) = (s = [])"
| "jsonFalsy (JArr ms) = False"
| "jsonFalsy (JObj fs) = False"

definition isInitializationPayload :: "(json \<Rightarrow> bool) \<Rightarrow> json option \<Rightarrow> bool" where
  "isInitializationPayload isInitializeRequest payload =
     (case payload of
        None \<Rightarrow> False
      | Some p \<Rightarrow>
          if jsonFalsy p then False
          else (case p of
                  JArr ms \<Rightarrow> list_ex isInitializeRequest ms
                | _ \<Rightarrow> isInitializeRequest p))"

datatype Resolution = Response nat string | Resolved Transport bool

definition resolveTransportForRequest ::
  "(json \<Rightarrow> bool) \<Rightarrow> int \<Rightarrow> App \<Rightarrow> string \<Rightarrow> string option \<Rightarrow> SessionIdentity option \<Rightarrow>
     json option \<Rightarrow> (failure + Resolution) \<times> App" where
  "resolveTransportForRequest isInitializeRequest now app method providedSessionId
       sessionIdentity parsedBody =
     (if \<not> isStatefulMode app then
        (if method = ''DELETE''
         then (Inr (Response 405 ''Session termination not supported in stateless mode''), app)
         else (case createStatelessTransport app of
                 (transport, app') \<Rightarrow> (Inr (Resolved transport True), app')))
      else
        (case sessionStore app of
           None \<Rightarrow> (Inl StoreMissing, app)
         | Some store \<Rightarrow>
             (case truthyValue providedSessionId of
                Some sid \<Rightarrow>
                  (case isValidForIdentity store sid sessionIdentity now of
                     (isValid, store1) \<Rightarrow>
                       if \<not> isValid
                       then (Inr (Response 404 ''Session not found or expired''),
                             app\<lparr> sessionStore := Some store1 \<rparr>)
                       else
                         (case sessionTransports app sid of
                            None \<Rightarrow> (Inr (Response 404 ''Session not found or expired''),
                                     app\<lparr> sessionStore := Some store1 \<rparr>)
                          | Some existingTransport \<Rightarrow>
                              (Inr (Resolved existingTransport False),
                               app\<lparr> sessionStore :=
                                      Some (snd (getOrCreate store1 sid sessionIdentity now)) \<rparr>)))
              | None \<Rightarrow>
                  if method \<noteq> ''POST''
                  then (Inr (Response 400 ''Mcp-Session-Id header required for this request''), app)
                  else if \<not> isInitializationPayload isInitializeRequest parsedBody
                  then (Inr (Response 400
                          ''Initialization request required to create a new MCP session.''), app)
                  else (case createStatefulTransport app sessionIdentity of
                          Inl err \<Rightarrow> (Inl err, app)
                        | Inr (transport, app') \<Rightarrow> (Inr (Resolved transport True), app')))))"

section \<open>Request handling (httpTransport.ts, createHttpApp)\<close>

text \<open>
  The Protocol Transport Engine is outside the repository. What it does while a request
  is handled is a parameter: whether \<open>mcpServer.connect\<close> throws, which session events
  \<open>transport.handleRequest\<close> signals (in order), whether it throws afterwards, and
  whether \<open>transport.close()\<close> rejects.
\<close>

datatype engine_event = SessionInitialized string | SessionClosed "string option"

record EngineBehaviour =
  connectThrows :: bool
  engineEvents :: "engine_event list"
  handleRequestThrows :: bool
  closeRejects :: bool

text \<open>An event reaches the callbacks the transport was constructed with.\<close>

definition fire :: "Transport \<Rightarrow> int \<Rightarrow> App \<Rightarrow> engine_event \<Rightarrow> App" where
  "fire transport now app ev =
     (case kind transport of
        Stateless \<Rightarrow> app
      | Stateful ident \<Rightarrow>
          (case ev of
             SessionInitialized sid \<Rightarrow> onsessioninitialized transport ident now sid app
           | SessionClosed sid \<Rightarrow> onsessionclosed sid app))"

definition closeTransport :: "Transport \<Rightarrow> App \<Rightarrow> App" where
  "closeTransport transport app = app\<lparr> closeCalls := closeCalls app @ [transportId transport] \<rparr>"

datatype HttpResponse = JsonError nat string | ServerInfoJson | AlreadySent | CorsPreflight

text \<open>
  \<open>handleRpc\<close>: the body of the \<open>try\<close> stops at the first call that throws; the
  \<open>finally\<close> block closes the transport in stateless mode whatever happened, and a
  rejection of \<open>close()\<close> is caught and logged.
\<close>

definition handleRpc ::
  "(json \<Rightarrow> bool) \<Rightarrow> EngineBehaviour \<Rightarrow> int \<Rightarrow> App \<Rightarrow> string \<Rightarrow> string option \<Rightarrow>
     SessionIdentity option \<Rightarrow> json option \<Rightarrow> (failure + HttpResponse) \<times> App" where
  "handleRpc isInitializeRequest engine now app method providedSessionId sessionIdentity
       parsedBody =
     (case resolveTransportForRequest isInitializeRequest now app method providedSessionId
             sessionIdentity parsedBody of
        (Inl err, app1) \<Rightarrow> (Inl err, app1)
      | (Inr (Response status message), app1) \<Rightarrow> (Inr (JsonError status message), app1)
      | (Inr (Resolved transport created), app1) \<Rightarrow>
          (let (thrown, app2) =
                 (if created \<and> connectThrows engine then (Some ConnectFailed, app1)
                  else
                    (let app' = foldl (fire transport now) app1 (engineEvents engine) in
                     if handleRequestThrows engine then (Some HandleRequestFailed, app')
                     else (None, app')));
               app3 = (if \<not> isStatefulMode app2 then closeTransport transport app2 else app2)
           in (case thrown of
                 Some err \<Rightarrow> (Inl err, app3)
               | None \<Rightarrow> (Inr AlreadySent, app3))))"

text \<open>
  A request as the handlers of the endpoint see it. \<open>httpMethod\<close> is \<open>c.req.method\<close>,
  which the server delivers in upper case, so that \<open>toUpperCase()\<close> leaves it as it is;
  \<open>body\<close> is the result of \<open>c.req.json()\<close>, \<open>None\<close> when it throws; \<open>authInfo\<close> is what the authentication context holds when the handler runs
  (a request that the authentication middleware rejects does not reach the handler).
\<close>

record McpRequest =
  httpMethod :: string
  originHeader :: "string option"
  acceptHeader :: "string option"
  mcpSessionIdHeader :: "string option"
  authInfo :: "AuthInfo option"
  bindingsAvailable :: bool
  body :: "json option"

text \<open>\<open>String.prototype.includes\<close>.\<close>

fun stringIncludes :: "string \<Rightarrow> string \<Rightarrow> bool" where
  "stringIncludes [] sub = (sub = [])"
| "stringIncludes (c # cs) sub = (take (length sub) (c # cs) = sub \<or> stringIncludes cs sub)"

definition mcpHandler ::
  "(json \<Rightarrow> bool) \<Rightarrow> EngineBehaviour \<Rightarrow> int \<Rightarrow> App \<Rightarrow> McpRequest \<Rightarrow>
     (failure + HttpResponse) \<times> App" where
  "mcpHandler isInitializeRequest engine now app req =
     (if \<not> bindingsAvailable req then (Inl BindingsMissing, app)
      else
        (let sessionIdentity = extractSessionIdentity (authInfo req) in
         if httpMethod req = ''POST'' \<and> body req = None
         then (Inr (JsonError 400 ''Invalid JSON payload. Ensure the body is valid JSON.''), app)
         else handleRpc isInitializeRequest engine now app (httpMethod req)
                (mcpSessionIdHeader req) sessionIdentity
                (if httpMethod req = ''POST'' then body req else None)))"

text \<open>
  The chain of handlers that a request to the endpoint path runs through, in registration
  order: the CORS middleware of the framework, which answers every \<open>OPTIONS\<close> request
  with 204 and passes every other request on; the origin guard; the status handler
  registered with \<open>app.get\<close>, which the framework's router also runs for a \<open>HEAD\<close>
  request (answered as the \<open>GET\<close> would be, without the body); the MCP handler
  registered with \<open>app.all\<close>.
\<close>

definition mcpEndpoint ::
  "(json \<Rightarrow> bool) \<Rightarrow> EngineBehaviour \<Rightarrow> int \<Rightarrow> App \<Rightarrow> McpRequest \<Rightarrow>
     (failure + HttpResponse) \<times> App" where
  "mcpEndpoint isInitializeRequest engine now app req =
     (if httpMethod req = ''OPTIONS'' then (Inr CorsPreflight, app)
      else
        (case originGuard (mcpAllowedOrigins (config app)) (originHeader req) of
           Reject status message \<Rightarrow> (Inr (JsonError status message), app)
         | Continue \<Rightarrow>
             if (httpMethod req = ''GET'' \<or> httpMethod req = ''HEAD'') \<and>
                \<not> stringIncludes (case acceptHeader req of None \<Rightarrow> [] | Some a \<Rightarrow> a)
                     ''text/event-stream''
             then (Inr ServerInfoJson, app)
             else mcpHandler isInitializeRequest engine now app req))"

text \<open>A run of the server: requests handled one after the other, each with the engine's
  behaviour and the clock reading at that request.\<close>

definition serveAll ::
  "(json \<Rightarrow> bool) \<Rightarrow> App \<Rightarrow> (EngineBehaviour \<times> int \<times> McpRequest) list \<Rightarrow> App" where
  "serveAll isInitializeRequest app reqs =
     foldl (\<lambda>a (engine, now, req). snd (mcpEndpoint isInitializeRequest engine now a req)) app reqs"

text \<open>The two registries hold the same session ids.\<close>

definition registriesAgree :: "App \<Rightarrow> bool" where
  "registriesAgree app =
     (case sessionStore app of
        None \<Rightarrow> dom (sessionTransports app) = {}
      | Some store \<Rightarrow> dom (sessionTransports app) = dom (sessions store))"

section \<open>Invariants of the two modes\<close>

text \<open>Stateless mode: no store, an empty registry, and every transport constructed so
  far has been closed, in the order of construction.\<close>

definition statelessInv :: "App \<Rightarrow> bool" where
  "statelessInv app =
     (\<not> isStatefulMode app \<and> sessionStore app = None \<and> sessionTransports app = Map.empty \<and>
      closeCalls app = [0..<transportsCreated app])"

text \<open>Stateful mode: a store exists and holds the same ids as the registry.\<close>

definition statefulInv :: "App \<Rightarrow> bool" where
  "statefulInv app =
     (\<exists>store. sessionStore app = Some store \<and>
        dom (sessionTransports app) = dom (sessions store))"

text \<open>The request does not present the id of a record that is stale at its time.\<close>

definition noStaleHit :: "App \<Rightarrow> int \<Rightarrow> string option \<Rightarrow> bool" where
  "noStaleHit app now providedSessionId =
     (case sessionStore app of
        None \<Rightarrow> True
      | Some store \<Rightarrow>
          (case truthyValue providedSessionId of
             None \<Rightarrow> True
           | Some sid \<Rightarrow>
               (case sessions store sid of
                  None \<Rightarrow> True
                | Some r \<Rightarrow> \<not> isStale store now r)))"

text \<open>Every session id of the Session Store has a transport in the registry.\<close>

definition storeIdsRegistered :: "App \<Rightarrow> bool" where
  "storeIdsRegistered app =
     (case sessionStore app of
        None \<Rightarrow> True
      | Some store \<Rightarrow> dom (sessions store) \<subseteq> dom (sessionTransports app))"

text \<open>No request of a run presents the id of a record that is stale when it arrives.\<close>

fun noStaleRun ::
  "(json \<Rightarrow> bool) \<Rightarrow> App \<Rightarrow> (EngineBehaviour \<times> int \<times> McpRequest) list \<Rightarrow> bool" where
  "noStaleRun isInitializeRequest app [] = True"
| "noStaleRun isInitializeRequest app ((engine, now, req) # rest) =
     (noStaleHit app now (mcpSessionIdHeader req) \<and>
      noStaleRun isInitializeRequest
        (snd (mcpEndpoint isInitializeRequest engine now app req)) rest)"

section \<open>Graceful shutdown (index.ts)\<close>

text \<open>
  The module state of index.ts that \<open>shutdown\<close> reads and writes, with the exit code once
  \<open>process.exit\<close> has been called and the signals whose invocation went past the guard.
  \<open>serverIsRunning\<close> is \<open>server?.IsRunning\<close>.
\<close>

record ProcessState =
  isShuttingDown :: bool
  serverIsRunning :: bool
  exitCode :: "int option"
  triggerEvents :: "string list"

text \<open>Which of the awaited steps throw is the environment's choice.\<close>

record ShutdownSteps =
  stopThrows :: bool
  shutdownOpenTelemetryThrows :: bool
  loggerCloseThrows :: bool

definition shutdown :: "ShutdownSteps \<Rightarrow> string \<Rightarrow> ProcessState \<Rightarrow> ProcessState" where
  "shutdown steps signal s =
     (if isShuttingDown s then s
      else
        (let s1 = s\<lparr> isShuttingDown := True, triggerEvents := triggerEvents s @ [signal] \<rparr> in
         if serverIsRunning s1 \<and> stopThrows steps then s1\<lparr> exitCode := Some 1 \<rparr>
         else
           (let s2 = (if serverIsRunning s1 then s1\<lparr> serverIsRunning := False \<rparr> else s1) in
            if shutdownOpenTelemetryThrows steps then s2\<lparr> exitCode := Some 1 \<rparr>
            else if loggerCloseThrows steps then s2\<lparr> exitCode := Some 1 \<rparr>
            else s2\<lparr> exitCode := Some 0 \<rparr>)))"

definition shutdownAll :: "ProcessState \<Rightarrow> (ShutdownSteps \<times> string) list \<Rightarrow> ProcessState" where
  "shutdownAll s calls = foldl (\<lambda>a (steps, signal). shutdown steps signal a) s calls"

text \<open>Every step that is executed completes without an error.\<close>

definition cleanShutdown :: "ShutdownSteps \<Rightarrow> ProcessState \<Rightarrow> bool" where
  "cleanShutdown steps s =
     (\<not> (serverIsRunning s \<and> stopThrows steps) \<and> \<not> shutdownOpenTelemetryThrows steps \<and>
      \<not> loggerCloseThrows steps)"

section \<open>Example values\<close>

text \<open>
  A stateful server with a stale timeout of one second, and an engine that answers an
  initialize request by signalling the new session \<open>abc\<close>. \<open>exampleApp\<close> is the state
  after that request, handled at time 0.
\<close>

definition exampleConfig :: Config where
  "exampleConfig =
     \<lparr> mcpSessionMode = ''stateful'', mcpStatefulSessionStaleTimeoutMs = 1000,
       mcpAllowedOrigins = None \<rparr>"

definition exampleIsInitialize :: "json \<Rightarrow> bool" where
  "exampleIsInitialize j =
     (case j of JObj fs \<Rightarrow> map_of fs ''method'' = Some (JStr ''initialize'') | _ \<Rightarrow> False)"

definition initializeRequest :: McpRequest where
  "initializeRequest =
     \<lparr> httpMethod = ''POST'', originHeader = None, acceptHeader = None, mcpSessionIdHeader = None,
       authInfo = None, bindingsAvailable = True,
       body = Some (JObj [(''method'', JStr ''initialize'')]) \<rparr>"

definition initializingEngine :: EngineBehaviour where
  "initializingEngine =
     \<lparr> connectThrows = False, engineEvents = [SessionInitialized ''abc''],
       handleRequestThrows = False, closeRejects = False \<rparr>"

definition quietEngine :: EngineBehaviour where
  "quietEngine =
     \<lparr> connectThrows = False, engineEvents = [], handleRequestThrows = False,
       closeRejects = False \<rparr>"

definition exampleApp :: App where
  "exampleApp =
     snd (mcpEndpoint exampleIsInitialize initializingEngine 0 (createHttpApp exampleConfig)
            initializeRequest)"

definition exampleTransport :: Transport where
  "exampleTransport = \<lparr> transportId = 0, kind = Stateful None \<rparr>"

definition exampleStore :: SessionStore where
  "exampleStore =
     \<lparr> staleTimeoutMs = 1000,
       sessions = [''abc'' \<mapsto> \<lparr> identity = None, createdAt = 0, lastAccessedAt = 0 \<rparr>] \<rparr>"

definition sessionRequest :: "string \<Rightarrow> string \<Rightarrow> McpRequest" where
  "sessionRequest m sid =
     \<lparr> httpMethod = m, originHeader = None, acceptHeader = Some ''text/event-stream'',
       mcpSessionIdHeader = Some sid, authInfo = None, bindingsAvailable = True,
       body = Some (JObj []) \<rparr>"

section \<open>Study data (services/clinical-trials-gov/types)\<close>

text \<open>
  The records below hold the fields of the type \<open>Study\<close> that the two tools read, each
  optional as the optional chaining in the tools has it; \<open>otherModules\<close> stands for the
  rest of the protocol section, which only the helper functions of the eligibility tool
  look at.
\<close>

record IdentificationModule =
  nctId :: "string option"
  officialTitle :: "string option"
  briefTitle :: "string option"

record DescriptionModule =
  briefSummary :: "string option"

record StatusModule =
  overallStatus :: "string option"

record ConditionsModule =
  conditions :: "string list option"

record Intervention =
  interventionName :: "string option"
  interventionType :: "string option"

record ArmsInterventionsModule =
  interventions :: "Intervention list option"

record Sponsor =
  sponsorName :: "string option"

record SponsorCollaboratorsModule =
  leadSponsor :: "Sponsor option"

record EligibilityModule =
  minimumAge :: "string option"
  maximumAge :: "string option"
  sex :: "string option"
  healthyVolunteers :: "bool option"
  eligibilityCriteria :: "string option"

record 'x ProtocolSection =
  identificationModule :: "IdentificationModule option"
  descriptionModule :: "DescriptionModule option"
  statusModule :: "StatusModule option"
  conditionsModule :: "ConditionsModule option"
  armsInterventionsModule :: "ArmsInterventionsModule option"
  sponsorCollaboratorsModule :: "SponsorCollaboratorsModule option"
  eligibilityModule :: "EligibilityModule option"
  otherModules :: 'x

record 'x Study =
  protocolSection :: "'x ProtocolSection option"

section \<open>The tool clinicaltrials_get_study\<close>

record StudySummary =
  summaryNctId :: "string option"
  summaryTitle :: "string option"
  summaryBriefSummary :: "string option"
  summaryOverallStatus :: "string option"
  summaryConditions :: "string list option"
  summaryInterventions :: "Intervention list option"
  summaryLeadSponsor :: "string option"

definition createStudySummary :: "'x Study \<Rightarrow> StudySummary" where
  "createStudySummary study =
     \<lparr> summaryNctId =
         Option.bind (Option.bind (protocolSection study) identificationModule) nctId,
       summaryTitle =
         Option.bind (Option.bind (protocolSection study) identificationModule) officialTitle,
       summaryBriefSummary =
         Option.bind (Option.bind (protocolSection study) descriptionModule) briefSummary,
       summaryOverallStatus =
         Option.bind (Option.bind (protocolSection study) statusModule) overallStatus,
       summaryConditions =
         Option.bind (Option.bind (protocolSection study) conditionsModule) conditions,
       summaryInterventions =
         map_option
           (map (\<lambda>i. \<lparr> interventionName = interventionName i,
                        interventionType = interventionType i \<rparr>))
           (Option.bind (Option.bind (protocolSection study) armsInterventionsModule)
              interventions),
       summaryLeadSponsor =
         Option.bind
           (Option.bind (Option.bind (protocolSection study) sponsorCollaboratorsModule)
              leadSponsor)
           sponsorName \<rparr>"

datatype GetStudyNctIds = SingleId string | IdArray "string list"

record GetStudyInput =
  nctIds :: GetStudyNctIds
  summaryOnly :: bool

datatype 'x StudyItem = FullStudy "'x Study" | SummaryOf StudySummary

record 'x GetStudyOutput =
  studies :: "'x StudyItem list"
  errors :: "(string \<times> string) list option"

text \<open>
  What \<open>provider.fetchStudy\<close> does for the request at a position of the id list is a
  parameter: it returns a study or throws, an \<open>McpError\<close> with its message or anything
  else.
\<close>

datatype fetch_error = IsMcpError string | OtherError

datatype tool_error = ServiceUnavailable string "(string \<times> string) list"

definition errorMessage :: "fetch_error \<Rightarrow> string" where
  "errorMessage e =
     (case e of IsMcpError msg \<Rightarrow> msg | OtherError \<Rightarrow> ''An unexpected error occurred'')"

text \<open>
  The callbacks of \<open>Promise.all(nctIds.map(async ...))\<close> push to \<open>studies\<close> and \<open>errors\<close>
  when their fetch settles. \<open>settleTime\<close> gives each position the time at which its
  fetch settles; the callbacks run in that order, positions settling together in the order
  of the list.
\<close>

definition settleOne ::
  "(nat \<Rightarrow> string \<Rightarrow> fetch_error + 'x Study) \<Rightarrow> bool \<Rightarrow>
     'x StudyItem list \<times> (string \<times> string) list \<Rightarrow> nat \<times> string \<Rightarrow>
     'x StudyItem list \<times> (string \<times> string) list" where
  "settleOne fetchStudy summary acc request =
     (case request of (i, nid) \<Rightarrow>
        (case fetchStudy i nid of
           Inr study \<Rightarrow>
             (if summary then (fst acc @ [SummaryOf (createStudySummary study)], snd acc)
              else (fst acc @ [FullStudy study], snd acc))
         | Inl error \<Rightarrow> (fst acc, snd acc @ [(nid, errorMessage error)])))"

definition settleAll ::
  "(nat \<Rightarrow> string \<Rightarrow> fetch_error + 'x Study) \<Rightarrow> (nat \<Rightarrow> nat) \<Rightarrow> bool \<Rightarrow> string list \<Rightarrow>
     'x StudyItem list \<times> (string \<times> string) list" where
  "settleAll fetchStudy settleTime summary ids =
     foldl (settleOne fetchStudy summary) ([], [])
       (sort_key (\<lambda>request. settleTime (fst request)) (zip [0..<length ids] ids))"

text \<open>\<open>Array.prototype.join\<close>.\<close>

fun join :: "string \<Rightarrow> string list \<Rightarrow> string" where
  "join sep [] = []"
| "join sep [x] = x"
| "join sep (x # y # ys) = x @ sep @ join sep (y # ys)"

definition getStudy ::
  "(nat \<Rightarrow> string \<Rightarrow> fetch_error + 'x Study) \<Rightarrow> (nat \<Rightarrow> nat) \<Rightarrow> GetStudyInput \<Rightarrow>
     tool_error + 'x GetStudyOutput" where
  "getStudy fetchStudy settleTime input =
     (let ids = (case nctIds input of IdArray xs \<Rightarrow> xs | SingleId x \<Rightarrow> [x]);
          (studyItems, errorItems) = settleAll fetchStudy settleTime (summaryOnly input) ids
      in if length studyItems = 0 \<and> length errorItems > 0
         then Inl (ServiceUnavailable
                (''Failed to fetch any studies. Errors: '' @
                   join ''; '' (map (\<lambda>e. fst e @ '': '' @ snd e) errorItems))
                errorItems)
         else Inr \<lparr> studies = studyItems,
                    errors = (if length errorItems > 0 then Some errorItems else None) \<rparr>)"

text \<open>The ids of a request, and the item a fetched study is returned as.\<close>

definition requestedIds :: "GetStudyInput \<Rightarrow> string list" where
  "requestedIds input = (case nctIds input of IdArray xs \<Rightarrow> xs | SingleId x \<Rightarrow> [x])"

definition studyItem :: "bool \<Rightarrow> 'x Study \<Rightarrow> 'x StudyItem" where
  "studyItem summary study =
     (if summary then SummaryOf (createStudySummary study) else FullStudy study)"

text \<open>The items of the fetches that succeed and the entries of those that fail, for a
  list of requests (position and id).\<close>

fun successes ::
  "(nat \<Rightarrow> string \<Rightarrow> fetch_error + 'x Study) \<Rightarrow> bool \<Rightarrow> (nat \<times> string) list \<Rightarrow>
     'x StudyItem list" where
  "successes f summary [] = []"
| "successes f summary ((i, nid) # rs) =
     (case f i nid of
        Inr study \<Rightarrow> studyItem summary study # successes f summary rs
      | Inl e \<Rightarrow> successes f summary rs)"

fun failures ::
  "(nat \<Rightarrow> string \<Rightarrow> fetch_error + 'x Study) \<Rightarrow> (nat \<times> string) list \<Rightarrow>
     (string \<times> string) list" where
  "failures f [] = []"
| "failures f ((i, nid) # rs) =
     (case f i nid of
        Inr study \<Rightarrow> failures f rs
      | Inl e \<Rightarrow> (nid, errorMessage e) # failures f rs)"

definition errorList :: "'x GetStudyOutput \<Rightarrow> (string \<times> string) list" where
  "errorList out = (case errors out of None \<Rightarrow> [] | Some es \<Rightarrow> es)"

text \<open>Position \<open>i\<close> of the id list is accounted for in the output: by the item of its
  study when its fetch succeeded, by an entry of \<open>errors\<close> when it failed.\<close>

definition accountedFor ::
  "(nat \<Rightarrow> string \<Rightarrow> fetch_error + 'x Study) \<Rightarrow> GetStudyInput \<Rightarrow> 'x GetStudyOutput \<Rightarrow> nat \<Rightarrow> bool"
  where
  "accountedFor f input out i =
     (case f i (requestedIds input ! i) of
        Inr study \<Rightarrow> studyItem (summaryOnly input) study \<in> set (studies out)
      | Inl e \<Rightarrow> (requestedIds input ! i, errorMessage e) \<in> set (errorList out))"

text \<open>An example for the tool: of two requested ids the first is fetched, the second
  fails with an \<open>McpError\<close>.\<close>

definition exampleFetch :: "nat \<Rightarrow> string \<Rightarrow> fetch_error + unit Study" where
  "exampleFetch i nid =
     (if nid = ''NCT00000001'' then Inr \<lparr> protocolSection = None \<rparr>
      else Inl (IsMcpError ''Study not found''))"

definition exampleGetStudyInput :: GetStudyInput where
  "exampleGetStudyInput =
     \<lparr> nctIds = IdArray [''NCT00000001'', ''NCT00000002''], summaryOnly = False \<rparr>"

definition exampleGetStudyOutput :: "unit GetStudyOutput" where
  "exampleGetStudyOutput =
     \<lparr> studies = [FullStudy \<lparr> protocolSection = None \<rparr>],
       errors = Some [(''NCT00000002'', ''Study not found'')] \<rparr>"

section \<open>The tool clinicaltrials_find_eligible_studies\<close>

text \<open>
  The input and output records follow the zod schemas of the tool. Fields whose names
  are taken by the study records carry a prefix. \<open>inputSex\<close> is one of the strings
  \<open>All\<close>, \<open>Female\<close>, \<open>Male\<close>.
\<close>

record PatientLocation =
  country :: string
  state :: "string option"
  city :: "string option"
  postalCode :: "string option"

record FindEligibleStudiesInput =
  age :: int
  inputSex :: string
  inputConditions :: "string list"
  location :: PatientLocation
  healthyVolunteer :: bool
  maxResults :: int
  recruitingOnly :: bool

record EligibilityHighlights =
  ageRange :: "string option"
  highlightSex :: "string option"
  highlightHealthyVolunteers :: "bool option"
  criteriaSnippet :: "string option"

record StudyLocation =
  facility :: "string option"
  locationCity :: "string option"
  locationState :: "string option"
  locationCountry :: "string option"
  distance :: "rat option"

record StudyContact =
  contactName :: "string option"
  phone :: "string option"
  email :: "string option"

record StudyDetails =
  phase :: "string list option"
  status :: string
  enrollmentCount :: "rat option"
  sponsor :: "string option"

record EligibleStudy =
  eligibleNctId :: string
  title :: string
  eligibleBriefSummary :: "string option"
  matchScore :: rat
  matchReasons :: "string list"
  eligibilityHighlights :: EligibilityHighlights
  locations :: "StudyLocation list"
  contact :: "StudyContact option"
  studyDetails :: StudyDetails

record SearchCriteria =
  criteriaConditions :: "string list"
  criteriaLocation :: string
  criteriaAgeRange :: string

record FindEligibleStudiesOutput =
  eligibleStudies :: "EligibleStudy list"
  totalMatches :: nat
  searchCriteria :: SearchCriteria

record EligibilityCheck =
  eligible :: bool
  reason :: string

text \<open>
  The helper functions of the tool (from ageParser, eligibilityCheckers, studyExtractors
  and studyRanking) are parameters of the model.
\<close>

record 'x EligibilityUtils =
  checkAgeEligibility :: "string option \<Rightarrow> string option \<Rightarrow> int \<Rightarrow> EligibilityCheck"
  checkSexEligibility :: "string option \<Rightarrow> string \<Rightarrow> EligibilityCheck"
  checkHealthyVolunteerEligibility :: "bool option \<Rightarrow> bool \<Rightarrow> EligibilityCheck"
  extractRelevantLocations :: "'x Study \<Rightarrow> PatientLocation \<Rightarrow> StudyLocation list"
  extractContactInfo :: "'x Study \<Rightarrow> StudyContact option"
  extractStudyDetails :: "'x Study \<Rightarrow> StudyDetails"
  calculateMatchScore :: "EligibilityCheck list \<Rightarrow> rat"
  rankStudies :: "EligibleStudy list \<Rightarrow> EligibleStudy list"

text \<open>The \<open>??\<close> operator on an optional value.\<close>

definition orElse :: "'a option \<Rightarrow> 'a \<Rightarrow> 'a" where
  "orElse v d = (case v of None \<Rightarrow> d | Some x \<Rightarrow> x)"

text \<open>One round of the loop of \<open>filterByEligibility\<close>: \<open>None\<close> where the source
  continues with the next study, the pushed entry otherwise.\<close>

definition eligibleEntry ::
  "'x EligibilityUtils \<Rightarrow> FindEligibleStudiesInput \<Rightarrow> 'x Study \<Rightarrow> EligibleStudy option" where
  "eligibleEntry utils input study =
     (case Option.bind (protocolSection study) eligibilityModule of
        None \<Rightarrow> None
      | Some eligibility \<Rightarrow>
          (let ageCheck = checkAgeEligibility utils (minimumAge eligibility)
                            (maximumAge eligibility) (age input) in
           if \<not> eligible ageCheck then None
           else
             (let sexCheck = checkSexEligibility utils (sex eligibility) (inputSex input) in
              if \<not> eligible sexCheck then None
              else
                (let hvCheck = checkHealthyVolunteerEligibility utils
                                 (healthyVolunteers eligibility) (healthyVolunteer input) in
                 if \<not> eligible hvCheck then None
                 else
                   (let relevant = extractRelevantLocations utils study (location input) in
                    if length relevant = 0 then None
                    else
                      Some \<lparr> eligibleNctId =
                               orElse (Option.bind
                                  (Option.bind (protocolSection study) identificationModule)
                                  nctId) ''Unknown'',
                             title =
                               orElse (Option.bind
                                  (Option.bind (protocolSection study) identificationModule)
                                  briefTitle) ''No title'',
                             eligibleBriefSummary =
                               Option.bind
                                 (Option.bind (protocolSection study) descriptionModule)
                                 briefSummary,
                             matchScore =
                               calculateMatchScore utils [ageCheck, sexCheck, hvCheck],
                             matchReasons =
                               [reason ageCheck, reason sexCheck, reason hvCheck],
                             eligibilityHighlights =
                               \<lparr> ageRange =
                                   Some (orElse (minimumAge eligibility) ''N/A'' @ '' - '' @
                                         orElse (maximumAge eligibility) ''N/A''),
                                 highlightSex = Some (orElse (sex eligibility) ''All''),
                                 highlightHealthyVolunteers = healthyVolunteers eligibility,
                                 criteriaSnippet =
                                   map_option (take 300) (eligibilityCriteria eligibility) \<rparr>,
                             locations = relevant,
                             contact = extractContactInfo utils study,
                             studyDetails = extractStudyDetails utils study \<rparr>)))))"

fun filterByEligibility ::
  "'x EligibilityUtils \<Rightarrow> 'x Study list \<Rightarrow> FindEligibleStudiesInput \<Rightarrow> EligibleStudy list" where
  "filterByEligibility utils [] input = []"
| "filterByEligibility utils (study # rest) input =
     (case eligibleEntry utils input study of
        None \<Rightarrow> filterByEligibility utils rest input
      | Some entry \<Rightarrow> entry # filterByEligibility utils rest input)"

text \<open>The checks of the loop, as a predicate on a study.\<close>

definition passesEligibility ::
  "'x EligibilityUtils \<Rightarrow> FindEligibleStudiesInput \<Rightarrow> 'x Study \<Rightarrow> bool" where
  "passesEligibility utils input study =
     (case Option.bind (protocolSection study) eligibilityModule of
        None \<Rightarrow> False
      | Some eligibility \<Rightarrow>
          eligible (checkAgeEligibility utils (minimumAge eligibility)
                      (maximumAge eligibility) (age input)) \<and>
          eligible (checkSexEligibility utils (sex eligibility) (inputSex input)) \<and>
          eligible (checkHealthyVolunteerEligibility utils (healthyVolunteers eligibility)
                      (healthyVolunteer input)) \<and>
          extractRelevantLocations utils study (location input) \<noteq> [])"

record SearchParams =
  query :: string
  filterExpr :: "string option"
  pageSize :: nat

record 'x PagedStudies =
  pagedStudies :: "'x Study list option"
  totalCount :: "nat option"

text \<open>\<open>Array.prototype.slice(0, end)\<close> for an integer \<open>end\<close>: a negative \<open>end\<close> counts
  from the end of the array.\<close>

definition sliceFromStart :: "'a list \<Rightarrow> int \<Rightarrow> 'a list" where
  "sliceFromStart xs e =
     (if e < 0 then take (nat (int (length xs) + e)) xs else take (nat e) xs)"

text \<open>Decimal notation of an integer, as a template literal prints it.\<close>

fun showNat :: "nat \<Rightarrow> string" where
  "showNat n =
     (if n < 10 then [char_of (48 + n)] else showNat (n div 10) @ [char_of (48 + n mod 10)])"

declare showNat.simps [simp del]

definition showInt :: "int \<Rightarrow> string" where
  "showInt i = (if i < 0 then CHR ''-'' # showNat (nat (- i)) else showNat (nat i))"

definition searchParamsOf :: "FindEligibleStudiesInput \<Rightarrow> SearchParams" where
  "searchParamsOf input =
     \<lparr> query = join '' OR '' (inputConditions input),
       filterExpr =
         (if recruitingOnly input
          then Some ''STATUS:Recruiting OR STATUS:\"Not yet recruiting\"'' else None),
       pageSize = 100 \<rparr>"

text \<open>\<open>runTool\<close> of the tool; what \<open>provider.listStudies\<close> returns or throws is a
  parameter.\<close>

definition findEligibleStudies ::
  "'x EligibilityUtils \<Rightarrow> (SearchParams \<Rightarrow> string + 'x PagedStudies) \<Rightarrow>
     FindEligibleStudiesInput \<Rightarrow> string + FindEligibleStudiesOutput" where
  "findEligibleStudies utils listStudies input =
     (case listStudies (searchParamsOf input) of
        Inl err \<Rightarrow> Inl err
      | Inr page \<Rightarrow>
          (let eligibleList = filterByEligibility utils (orElse (pagedStudies page) []) input;
               rankedStudies = rankStudies utils eligibleList;
               finalStudies = sliceFromStart rankedStudies (maxResults input)
           in Inr \<lparr> eligibleStudies = finalStudies,
                    totalMatches = length eligibleList,
                    searchCriteria =
                      \<lparr> criteriaConditions = inputConditions input,
                        criteriaLocation =
                          orElse (city (location input))
                            (orElse (state (location input)) (country (location input))),
                        criteriaAgeRange =
                          showInt (age input) @ '' years old, '' @ inputSex input \<rparr> \<rparr>))"

text \<open>The studies of the page that the provider returned for the input.\<close>

definition searchedStudies ::
  "(SearchParams \<Rightarrow> string + 'x PagedStudies) \<Rightarrow> FindEligibleStudiesInput \<Rightarrow> 'x Study list" where
  "searchedStudies listStudies input =
     (case listStudies (searchParamsOf input) of
        Inl err \<Rightarrow> []
      | Inr page \<Rightarrow> orElse (pagedStudies page) [])"

section \<open>Lemmas\<close>

declare tryBind.simps [simp del]

lemma tryBind_exhausted:
  "int attempt > m + 1 \<Longrightarrow> tryBind probe sv m port attempt = BindFatal port attempt"
  by (subst tryBind.simps) simp

lemma tryBind_advance:
  "int attempt \<le> m + 1 \<Longrightarrow> portBlocked probe sv port \<Longrightarrow>
     tryBind probe sv m port attempt = tryBind probe sv m (port + 1) (attempt + 1)"
  by (subst tryBind.simps)
     (auto simp: portBlocked_def split: sum.splits serve_outcome.splits)

lemma tryBind_rejected:
  "int attempt \<le> m + 1 \<Longrightarrow> isPortInUse probe port = Inl err \<Longrightarrow>
     tryBind probe sv m port attempt = BindRejected err"
  by (subst tryBind.simps) simp

lemma tryBind_resolved:
  "int attempt \<le> m + 1 \<Longrightarrow> isPortInUse probe port = Inr False \<Longrightarrow>
     sv port = ServeReturns later \<Longrightarrow>
     tryBind probe sv m port attempt = BindResolved port later"
  by (subst tryBind.simps) simp

lemma not_portBlocked:
  "\<not> portBlocked probe sv port \<Longrightarrow>
     (\<exists>err. isPortInUse probe port = Inl err) \<or>
     (isPortInUse probe port = Inr False \<and> (\<exists>later. sv port = ServeReturns later))"
  by (auto simp: portBlocked_def split: sum.splits serve_outcome.splits)

lemma tryBind_Resolved:
  "tryBind probe sv m port attempt = BindResolved p later \<Longrightarrow>
     \<exists>k. p = port + k \<and> int (attempt + k) \<le> m + 1 \<and>
         (\<forall>j<k. portBlocked probe sv (port + j)) \<and>
         isPortInUse probe p = Inr False \<and> sv p = ServeReturns later"
proof (induction "nat (m + 2 - int attempt)" arbitrary: port attempt)
  case 0
  then have "int attempt > m + 1" by simp
  with "0.prems" show ?case by (simp add: tryBind_exhausted)
next
  case (Suc n)
  then have le: "int attempt \<le> m + 1" by simp
  from Suc have n: "n = nat (m + 2 - int (attempt + 1))" by simp
  show ?case
  proof (cases "portBlocked probe sv port")
    case True
    with Suc.prems le have "tryBind probe sv m (port + 1) (attempt + 1) = BindResolved p later"
      by (simp add: tryBind_advance)
    from Suc.hyps(1)[OF n this]
    obtain k where k: "p = port + 1 + k" "int (attempt + 1 + k) \<le> m + 1"
      "\<forall>j<k. portBlocked probe sv (port + 1 + j)"
      "isPortInUse probe p = Inr False" "sv p = ServeReturns later"
      by blast
    have "\<forall>j<Suc k. portBlocked probe sv (port + j)"
    proof (intro allI impI)
      fix j assume "j < Suc k"
      show "portBlocked probe sv (port + j)"
      proof (cases j)
        case 0
        with True show ?thesis by simp
      next
        case (Suc j')
        with \<open>j < Suc k\<close> k(3) have "portBlocked probe sv (port + 1 + j')" by simp
        with Suc show ?thesis by simp
      qed
    qed
    with k show ?thesis
      by (intro exI[of _ "Suc k"]) simp
  next
    case False
    from not_portBlocked[OF False] show ?thesis
    proof
      assume "\<exists>err. isPortInUse probe port = Inl err"
      then obtain err where "isPortInUse probe port = Inl err" by blast
      with Suc.prems le show ?thesis by (simp add: tryBind_rejected)
    next
      assume "isPortInUse probe port = Inr False \<and> (\<exists>later. sv port = ServeReturns later)"
      then obtain l where f: "isPortInUse probe port = Inr False" "sv port = ServeReturns l"
        by blast
      with Suc.prems le have "p = port \<and> l = later"
        by (simp add: tryBind_resolved)
      with f le show ?thesis
        by (intro exI[of _ 0]) simp
    qed
  qed
qed

lemma tryBind_Fatal_iff:
  "(\<exists>p a. tryBind probe sv m port attempt = BindFatal p a) \<longleftrightarrow>
     (\<forall>j. int (attempt + j) \<le> m + 1 \<longrightarrow> portBlocked probe sv (port + j))"
proof (induction "nat (m + 2 - int attempt)" arbitrary: port attempt)
  case 0
  then have "int attempt > m + 1" by simp
  then show ?case by (simp add: tryBind_exhausted)
next
  case (Suc n)
  then have le: "int attempt \<le> m + 1" by simp
  from Suc have n: "n = nat (m + 2 - int (attempt + 1))" by simp
  show ?case
  proof (cases "portBlocked probe sv port")
    case True
    have "(\<exists>p a. tryBind probe sv m port attempt = BindFatal p a) \<longleftrightarrow>
          (\<forall>j. int (attempt + 1 + j) \<le> m + 1 \<longrightarrow> portBlocked probe sv (port + 1 + j))"
      using Suc.hyps(1)[OF n, of "port + 1"] tryBind_advance[OF le True] by simp
    also have "\<dots> \<longleftrightarrow> (\<forall>j. int (attempt + j) \<le> m + 1 \<longrightarrow> portBlocked probe sv (port + j))"
    proof
      assume r: "\<forall>j. int (attempt + 1 + j) \<le> m + 1 \<longrightarrow> portBlocked probe sv (port + 1 + j)"
      show "\<forall>j. int (attempt + j) \<le> m + 1 \<longrightarrow> portBlocked probe sv (port + j)"
      proof (intro allI impI)
        fix j assume j: "int (attempt + j) \<le> m + 1"
        show "portBlocked probe sv (port + j)"
        proof (cases j)
          case 0
          with True show ?thesis by simp
        next
          case (Suc j')
          with j r have "portBlocked probe sv (port + 1 + j')" by simp
          with Suc show ?thesis by simp
        qed
      qed
    next
      assume l: "\<forall>j. int (attempt + j) \<le> m + 1 \<longrightarrow> portBlocked probe sv (port + j)"
      show "\<forall>j. int (attempt + 1 + j) \<le> m + 1 \<longrightarrow> portBlocked probe sv (port + 1 + j)"
      proof (intro allI impI)
        fix j assume "int (attempt + 1 + j) \<le> m + 1"
        then have "int (attempt + Suc j) \<le> m + 1" by simp
        with l[rule_format, of "Suc j"] have "portBlocked probe sv (port + Suc j)" by blast
        then show "portBlocked probe sv (port + 1 + j)" by simp
      qed
    qed
    finally show ?thesis .
  next
    case False
    have "\<not> (\<exists>p a. tryBind probe sv m port attempt = BindFatal p a)"
      using not_portBlocked[OF False] le
      by (auto simp: tryBind_rejected tryBind_resolved)
    moreover have "\<not> (\<forall>j. int (attempt + j) \<le> m + 1 \<longrightarrow> portBlocked probe sv (port + j))"
      using le False by (auto intro: exI[of _ 0])
    ultimately show ?thesis by simp
  qed
qed

lemma tryBind_advance_many:
  "(\<forall>j<k. portBlocked probe sv (port + j)) \<Longrightarrow> int (attempt + k) \<le> m + 2 \<Longrightarrow>
     tryBind probe sv m port attempt = tryBind probe sv m (port + k) (attempt + k)"
proof (induction k arbitrary: port attempt)
  case 0
  show ?case by simp
next
  case (Suc k)
  from Suc.prems have b: "portBlocked probe sv port" by auto
  from Suc.prems have le: "int attempt \<le> m + 1" by simp
  have "\<forall>j<k. portBlocked probe sv (port + 1 + j)"
  proof (intro allI impI)
    fix j assume "j < k"
    then have "Suc j < Suc k" by simp
    with Suc.prems(1)[rule_format, of "Suc j"] have "portBlocked probe sv (port + Suc j)"
      by blast
    then show "portBlocked probe sv (port + 1 + j)" by simp
  qed
  moreover from Suc.prems have "int (attempt + 1 + k) \<le> m + 2" by simp
  ultimately have "tryBind probe sv m (port + 1) (attempt + 1)
      = tryBind probe sv m (port + 1 + k) (attempt + 1 + k)"
    by (rule Suc.IH)
  with tryBind_advance[OF le b] show ?case by simp
qed

lemma threeOccupied_blocked:
  "portBlocked (threeOccupied P) bindSucceeds port \<longleftrightarrow>
     port = P \<or> port = P + 1 \<or> port = P + 2"
  by (simp add: portBlocked_def isPortInUse_def threeOccupied_def bindSucceeds_def)

lemma threeOccupied_first_three:
  "\<forall>j<3. portBlocked (threeOccupied P) bindSucceeds (P + j)"
  by (auto simp: threeOccupied_blocked)

text \<open>What the launcher does with occupied ports: with \<open>P\<close>, \<open>P+1\<close>, \<open>P+2\<close> occupied and
  \<open>P+3\<close> free it resolves with the server of \<open>P+3\<close> when \<open>maxRetries \<ge> 3\<close> and reports the
  fatal failure when \<open>maxRetries = 2\<close>.\<close>

lemma threeOccupied_bind:
  assumes "3 \<le> m"
  shows "startHttpServerWithRetry (threeOccupied P) bindSucceeds P m = BindResolved (P + 3) None"
proof -
  from assms have "int (1 + 3) \<le> m + 2" by simp
  from tryBind_advance_many[OF threeOccupied_first_three this]
  have "tryBind (threeOccupied P) bindSucceeds m P 1
        = tryBind (threeOccupied P) bindSucceeds m (P + 3) (1 + 3)" .
  also have "\<dots> = BindResolved (P + 3) None"
    using assms tryBind_resolved[of "1 + 3" m "threeOccupied P" "P + 3" bindSucceeds None]
    by (simp add: isPortInUse_def threeOccupied_def bindSucceeds_def)
  finally show ?thesis unfolding startHttpServerWithRetry_def .
qed

lemma threeOccupied_fatal:
  "startHttpServerWithRetry (threeOccupied P) bindSucceeds P 2 = BindFatal (P + 3) 4"
proof -
  have "int (1 + 3) \<le> 2 + 2" by simp
  from tryBind_advance_many[OF threeOccupied_first_three this]
  have "tryBind (threeOccupied P) bindSucceeds 2 P 1
        = tryBind (threeOccupied P) bindSucceeds 2 (P + 3) (1 + 3)" .
  also have "\<dots> = BindFatal (P + 3) 4"
    using tryBind_exhausted[of 2 "1 + 3" "threeOccupied P" bindSucceeds "P + 3"]
    by simp
  finally show ?thesis unfolding startHttpServerWithRetry_def .
qed

lemma exampleApp_eq:
  "exampleApp =
     \<lparr> config = exampleConfig, isStatefulMode = True, sessionStore = Some exampleStore,
       sessionTransports = [''abc'' \<mapsto> exampleTransport], transportsCreated = 1,
       closeCalls = [] \<rparr>"
  by (simp add: exampleApp_def mcpEndpoint_def originGuard_def exampleConfig_def
        initializeRequest_def mcpHandler_def extractSessionIdentity_def handleRpc_def
        resolveTransportForRequest_def createHttpApp_def truthyValue_def
        isInitializationPayload_def exampleIsInitialize_def createStatefulTransport_def
        initializingEngine_def fire_def onsessioninitialized_def getOrCreate_def
        exampleStore_def exampleTransport_def Let_def)

lemma fire_stateless:
  "kind transport = Stateless \<Longrightarrow> foldl (fire transport now) app evs = app"
  by (induction evs) (simp_all add: fire_def)

lemma handleRpc_stateless:
  assumes "statelessInv app"
  shows "statelessInv (snd (handleRpc isInit engine now app m sid ident payload))"
proof (cases "m = ''DELETE''")
  case True
  with assms show ?thesis
    by (simp add: handleRpc_def resolveTransportForRequest_def statelessInv_def)
next
  case False
  with assms show ?thesis
    by (simp add: handleRpc_def resolveTransportForRequest_def statelessInv_def
          createStatelessTransport_def fire_stateless closeTransport_def Let_def
        split: option.splits)
qed

lemma mcpEndpoint_stateless:
  assumes "statelessInv app"
  shows "statelessInv (snd (mcpEndpoint isInit engine now app req))"
  using assms handleRpc_stateless[OF assms]
  by (simp add: mcpEndpoint_def mcpHandler_def Let_def split: guard_outcome.splits)

lemma serveAll_stateless:
  "statelessInv app \<Longrightarrow> statelessInv (serveAll isInit app reqs)"
proof (induction reqs arbitrary: app)
  case Nil
  then show ?case by (simp add: serveAll_def)
next
  case (Cons r reqs)
  obtain engine now req where r: "r = (engine, now, req)" by (cases r) auto
  from Cons.prems have "statelessInv (snd (mcpEndpoint isInit engine now app req))"
    by (rule mcpEndpoint_stateless)
  from Cons.IH[OF this] show ?case by (simp add: serveAll_def r)
qed

lemma onsessioninitialized_inv:
  "statefulInv app \<Longrightarrow> statefulInv (onsessioninitialized t ident now sid app)"
  by (auto simp: statefulInv_def onsessioninitialized_def getOrCreate_def Let_def)

lemma onsessionclosed_inv:
  "statefulInv app \<Longrightarrow> statefulInv (onsessionclosed sid app)"
  by (auto simp: statefulInv_def onsessionclosed_def terminate_def split: option.splits)

lemma fire_inv: "statefulInv app \<Longrightarrow> statefulInv (fire t now app ev)"
  by (cases ev)
     (auto simp: fire_def onsessioninitialized_inv onsessionclosed_inv
        split: transport_kind.splits)

lemma foldl_fire_inv: "statefulInv app \<Longrightarrow> statefulInv (foldl (fire t now) app evs)"
  by (induction evs arbitrary: app) (simp_all add: fire_inv)

lemma resolve_inv:
  assumes "statefulInv app" and "noStaleHit app now sid"
  shows "statefulInv (snd (resolveTransportForRequest isInit now app m sid ident payload))"
proof -
  from assms(1) obtain store where st: "sessionStore app = Some store"
    and d: "dom (sessionTransports app) = dom (sessions store)"
    by (auto simp: statefulInv_def)
  show ?thesis
  proof (cases "isStatefulMode app")
    case False
    with assms(1) show ?thesis
      by (auto simp: resolveTransportForRequest_def createStatelessTransport_def
            statefulInv_def)
  next
    case True
    show ?thesis
    proof (cases "truthyValue sid")
      case None
      with True st assms(1) show ?thesis
        by (auto simp: resolveTransportForRequest_def createStatefulTransport_def
              statefulInv_def)
    next
      case (Some x)
      show ?thesis
      proof (cases "sessions store x")
        case None
        with Some True st assms(1) show ?thesis
          by (auto simp: resolveTransportForRequest_def isValidForIdentity_def
                statefulInv_def)
      next
        case (Some r)
        with \<open>truthyValue sid = Some x\<close> st assms(2) have ns: "\<not> isStale store now r"
          by (simp add: noStaleHit_def)
        have v: "isValidForIdentity store x ident now = (identityMatches (identity r) ident, store)"
          using Some ns by (simp add: isValidForIdentity_def)
        from Some have xin: "x \<in> dom (sessions store)" by auto
        have "dom (sessions (snd (getOrCreate store x ident now))) = dom (sessions store)"
          using xin by (auto simp: getOrCreate_def Let_def)
        with \<open>truthyValue sid = Some x\<close> True st d v show ?thesis
          by (auto simp: resolveTransportForRequest_def statefulInv_def
                split: option.splits)
      qed
    qed
  qed
qed

lemma statefulInv_iff: "statefulInv app \<longleftrightarrow> registriesAgree app \<and> sessionStore app \<noteq> None"
  by (auto simp: statefulInv_def registriesAgree_def)

lemma handleRpc_inv:
  assumes "statefulInv app" and "isStatefulMode app" and "noStaleHit app now sid"
  shows "statefulInv (snd (handleRpc isInit engine now app m sid ident payload))"
proof -
  obtain res app1 where r: "resolveTransportForRequest isInit now app m sid ident payload
      = (res, app1)"
    by (cases "resolveTransportForRequest isInit now app m sid ident payload") auto
  from resolve_inv[OF assms(1,3), of isInit m ident payload] r
  have i1: "statefulInv app1" by simp
  have mode: "isStatefulMode app1"
    using r assms(2)
    by (auto simp: resolveTransportForRequest_def createStatefulTransport_def
          split: option.splits if_splits prod.splits sum.splits)
  show ?thesis
  proof (cases res)
    case (Inl e)
    with r i1 show ?thesis by (simp add: handleRpc_def)
  next
    case (Inr x)
    show ?thesis
    proof (cases x)
      case (Response status message)
      with Inr r i1 show ?thesis by (simp add: handleRpc_def)
    next
      case (Resolved t created)
      have m2: "isStatefulMode (foldl (fire t now) app1 (engineEvents engine))"
        using mode
      proof (induction "engineEvents engine" arbitrary: app1 engine)
        case Nil
        then show ?case by simp
      next
        case (Cons ev evs)
        have "isStatefulMode (fire t now app1 ev)"
          using Cons.prems
          by (auto simp: fire_def onsessioninitialized_def onsessionclosed_def
                split: transport_kind.splits engine_event.splits option.splits)
        from Cons.hyps(1)[of "engine\<lparr> engineEvents := evs \<rparr>" "fire t now app1 ev"] this
          Cons.hyps(2)[symmetric]
        show ?case by simp
      qed
      from Resolved Inr r i1 mode m2 foldl_fire_inv[OF i1, of t now "engineEvents engine"]
      show ?thesis
        by (auto simp: handleRpc_def Let_def split: option.splits)
    qed
  qed
qed

lemma mcpEndpoint_inv:
  assumes "statefulInv app" and "isStatefulMode app"
    and "noStaleHit app now (mcpSessionIdHeader req)"
  shows "statefulInv (snd (mcpEndpoint isInit engine now app req))"
  using assms(1) handleRpc_inv[OF assms]
  by (simp add: mcpEndpoint_def mcpHandler_def Let_def split: guard_outcome.splits)

lemma createHttpApp_stateful:
  "mcpSessionMode cfg = ''stateful'' \<Longrightarrow>
     statefulInv (createHttpApp cfg) \<and> isStatefulMode (createHttpApp cfg)"
  by (simp add: createHttpApp_def statefulInv_def)

lemma createHttpApp_stateless:
  "mcpSessionMode cfg \<noteq> ''stateful'' \<Longrightarrow> statelessInv (createHttpApp cfg)"
  by (simp add: createHttpApp_def statelessInv_def)

lemma fire_mode: "isStatefulMode (fire t now app ev) = isStatefulMode app"
  by (auto simp: fire_def onsessioninitialized_def onsessionclosed_def
        split: transport_kind.splits engine_event.splits option.splits)

lemma foldl_fire_mode: "isStatefulMode (foldl (fire t now) app evs) = isStatefulMode app"
  by (induction evs arbitrary: app) (simp_all add: fire_mode)

lemma resolve_mode:
  "isStatefulMode (snd (resolveTransportForRequest isInit now app m sid ident payload))
     = isStatefulMode app"
  by (auto simp: resolveTransportForRequest_def createStatefulTransport_def
        createStatelessTransport_def
      split: option.splits if_splits prod.splits sum.splits)

lemma handleRpc_mode:
  "isStatefulMode (snd (handleRpc isInit engine now app m sid ident payload))
     = isStatefulMode app"
proof -
  obtain res app1 where r: "resolveTransportForRequest isInit now app m sid ident payload
      = (res, app1)"
    by (cases "resolveTransportForRequest isInit now app m sid ident payload") auto
  from resolve_mode[of isInit now app m sid ident payload] r
  have "isStatefulMode app1 = isStatefulMode app" by simp
  with r show ?thesis
    by (auto simp: handleRpc_def Let_def foldl_fire_mode closeTransport_def
          split: sum.splits Resolution.splits option.splits)
qed

lemma mcpEndpoint_mode:
  "isStatefulMode (snd (mcpEndpoint isInit engine now app req)) = isStatefulMode app"
  by (simp add: mcpEndpoint_def mcpHandler_def Let_def handleRpc_mode
        split: guard_outcome.splits)

lemma evicting_run:
  "serveAll exampleIsInitialize (createHttpApp exampleConfig)
      [(initializingEngine, 0, initializeRequest),
       (quietEngine, 1002, sessionRequest ''GET'' ''abc'')]
   = exampleApp\<lparr> sessionStore := Some (exampleStore\<lparr> sessions := Map.empty \<rparr>) \<rparr>"
proof -
  have "serveAll exampleIsInitialize (createHttpApp exampleConfig)
      [(initializingEngine, 0, initializeRequest),
       (quietEngine, 1002, sessionRequest ''GET'' ''abc'')]
    = snd (mcpEndpoint exampleIsInitialize quietEngine 1002 exampleApp
             (sessionRequest ''GET'' ''abc''))"
    by (simp add: serveAll_def exampleApp_def)
  also have "\<dots> = exampleApp\<lparr> sessionStore := Some (exampleStore\<lparr> sessions := Map.empty \<rparr>) \<rparr>"
    by (simp add: exampleApp_eq mcpEndpoint_def originGuard_def exampleConfig_def
          sessionRequest_def mcpHandler_def extractSessionIdentity_def handleRpc_def
          resolveTransportForRequest_def truthyValue_def isValidForIdentity_def
          exampleStore_def isStale_def Let_def)
  finally show ?thesis .
qed

lemma settle_foldl:
  "foldl (settleOne f s) acc rs = (fst acc @ successes f s rs, snd acc @ failures f rs)"
proof (induction rs arbitrary: acc)
  case Nil
  show ?case by simp
next
  case (Cons r rs)
  obtain i nid where r: "r = (i, nid)" by (cases r) auto
  have "foldl (settleOne f s) acc (r # rs) = foldl (settleOne f s) (settleOne f s acc r) rs"
    by simp
  also have "\<dots> = (fst (settleOne f s acc r) @ successes f s rs,
                   snd (settleOne f s acc r) @ failures f rs)"
    by (rule Cons.IH)
  also have "\<dots> = (fst acc @ successes f s (r # rs), snd acc @ failures f (r # rs))"
    by (cases "f i nid") (simp_all add: r settleOne_def studyItem_def)
  finally show ?case .
qed

lemma successes_set:
  "x \<in> set (successes f s rs) \<longleftrightarrow>
     (\<exists>i nid study. (i, nid) \<in> set rs \<and> f i nid = Inr study \<and> x = studyItem s study)"
proof (induction rs)
  case Nil
  show ?case by simp
next
  case (Cons r rs)
  obtain i nid where r: "r = (i, nid)" by (cases r) auto
  show ?case
    by (cases "f i nid") (auto simp: Cons.IH r)
qed

lemma failures_set:
  "y \<in> set (failures f rs) \<longleftrightarrow>
     (\<exists>i nid e. (i, nid) \<in> set rs \<and> f i nid = Inl e \<and> y = (nid, errorMessage e))"
proof (induction rs)
  case Nil
  show ?case by simp
next
  case (Cons r rs)
  obtain i nid where r: "r = (i, nid)" by (cases r) auto
  show ?case
    by (cases "f i nid") (auto simp: Cons.IH r)
qed

lemma successes_failures_length:
  "length (successes f s rs) + length (failures f rs) = length rs"
proof (induction rs)
  case Nil
  show ?case by simp
next
  case (Cons r rs)
  obtain i nid where r: "r = (i, nid)" by (cases r) auto
  show ?case
    using Cons.IH by (cases "f i nid") (simp_all add: r)
qed

lemma successes_empty:
  "successes f s rs = [] \<longleftrightarrow> (\<forall>(i, nid) \<in> set rs. isl (f i nid))"
proof -
  have "successes f s rs = [] \<longleftrightarrow> set (successes f s rs) = {}" by simp
  also have "\<dots> \<longleftrightarrow> (\<forall>(i, nid) \<in> set rs. isl (f i nid))"
  proof
    assume e: "set (successes f s rs) = {}"
    show "\<forall>(i, nid) \<in> set rs. isl (f i nid)"
    proof (clarify, rule ccontr)
      fix i nid assume m: "(i, nid) \<in> set rs" and n: "\<not> isl (f i nid)"
      then obtain study where "f i nid = Inr study" by (cases "f i nid") auto
      with m have "studyItem s study \<in> set (successes f s rs)"
        by (auto simp: successes_set)
      with e show False by simp
    qed
  next
    assume a: "\<forall>(i, nid) \<in> set rs. isl (f i nid)"
    show "set (successes f s rs) = {}"
    proof (cases "successes f s rs")
      case Nil
      then show ?thesis by simp
    next
      case (Cons x xs)
      then have "x \<in> set (successes f s rs)" by simp
      then obtain i nid study where "(i, nid) \<in> set rs" "f i nid = Inr study"
        by (auto simp: successes_set)
      with a show ?thesis by auto
    qed
  qed
  finally show ?thesis .
qed

lemma failures_empty:
  "failures f rs = [] \<longleftrightarrow> (\<forall>(i, nid) \<in> set rs. \<not> isl (f i nid))"
proof -
  have "failures f rs = [] \<longleftrightarrow> set (failures f rs) = {}" by simp
  also have "\<dots> \<longleftrightarrow> (\<forall>(i, nid) \<in> set rs. \<not> isl (f i nid))"
  proof
    assume e: "set (failures f rs) = {}"
    show "\<forall>(i, nid) \<in> set rs. \<not> isl (f i nid)"
    proof (clarify)
      fix i nid assume m: "(i, nid) \<in> set rs" and n: "isl (f i nid)"
      then obtain er where "f i nid = Inl er" by (cases "f i nid") auto
      with m have "(nid, errorMessage er) \<in> set (failures f rs)"
        by (auto simp: failures_set)
      with e show False by simp
    qed
  next
    assume a: "\<forall>(i, nid) \<in> set rs. \<not> isl (f i nid)"
    show "set (failures f rs) = {}"
    proof (cases "failures f rs")
      case Nil
      then show ?thesis by simp
    next
      case (Cons y ys)
      then have "y \<in> set (failures f rs)" by simp
      then obtain i nid er where "(i, nid) \<in> set rs" "f i nid = Inl er"
        by (auto simp: failures_set)
      with a show ?thesis by auto
    qed
  qed
  finally show ?thesis .
qed

lemma positions_set:
  "(i, nid) \<in> set (sort_key k (zip [0..<length ids] ids)) \<longleftrightarrow> i < length ids \<and> nid = ids ! i"
proof -
  have "(i, nid) \<in> set (zip [0..<length ids] ids) \<longleftrightarrow> i < length ids \<and> nid = ids ! i"
  proof
    assume "(i, nid) \<in> set (zip [0..<length ids] ids)"
    then obtain n where "[0..<length ids] ! n = i" "ids ! n = nid" "n < length ids"
      by (auto simp: in_set_zip)
    then show "i < length ids \<and> nid = ids ! i" by auto
  next
    assume a: "i < length ids \<and> nid = ids ! i"
    then have "[0..<length ids] ! i = fst (i, nid) \<and> ids ! i = snd (i, nid) \<and>
        i < length [0..<length ids] \<and> i < length ids"
      by simp
    then show "(i, nid) \<in> set (zip [0..<length ids] ids)"
      unfolding in_set_zip by blast
  qed
  then show ?thesis by simp
qed

lemma settleAll_eq:
  "settleAll f t s ids =
     (successes f s (sort_key (\<lambda>request. t (fst request)) (zip [0..<length ids] ids)),
      failures f (sort_key (\<lambda>request. t (fst request)) (zip [0..<length ids] ids)))"
  by (simp add: settleAll_def settle_foldl)

lemma getStudy_eq:
  "getStudy f t input =
     (let rs = sort_key (\<lambda>request. t (fst request))
                 (zip [0..<length (requestedIds input)] (requestedIds input))
      in if successes f (summaryOnly input) rs = [] \<and> failures f rs \<noteq> []
         then Inl (ServiceUnavailable
                (''Failed to fetch any studies. Errors: '' @
                   join ''; '' (map (\<lambda>e. fst e @ '': '' @ snd e) (failures f rs)))
                (failures f rs))
         else Inr \<lparr> studies = successes f (summaryOnly input) rs,
                    errors = (if failures f rs \<noteq> [] then Some (failures f rs) else None) \<rparr>)"
  unfolding getStudy_def settleAll_eq requestedIds_def Let_def
  by (simp only: prod.case list.size(3) length_0_conv length_greater_0_conv)


lemma all_positions:
  "(\<forall>(i, nid) \<in> set (sort_key k (zip [0..<length ids] ids)). P i nid) \<longleftrightarrow>
     (\<forall>i<length ids. P i (ids ! i))"
proof
  assume a: "\<forall>(i, nid) \<in> set (sort_key k (zip [0..<length ids] ids)). P i nid"
  show "\<forall>i<length ids. P i (ids ! i)"
  proof (intro allI impI)
    fix i assume "i < length ids"
    then have "(i, ids ! i) \<in> set (sort_key k (zip [0..<length ids] ids))"
      by (simp only: positions_set)
    with a show "P i (ids ! i)" by blast
  qed
next
  assume b: "\<forall>i<length ids. P i (ids ! i)"
  show "\<forall>(i, nid) \<in> set (sort_key k (zip [0..<length ids] ids)). P i nid"
  proof (clarify)
    fix i nid assume "(i, nid) \<in> set (sort_key k (zip [0..<length ids] ids))"
    then have "i < length ids \<and> nid = ids ! i" by (simp only: positions_set)
    with b show "P i nid" by blast
  qed
qed

lemma eligibleEntry_passes:
  "eligibleEntry utils input study \<noteq> None \<longleftrightarrow> passesEligibility utils input study"
  by (simp add: eligibleEntry_def passesEligibility_def Let_def split: option.splits)

lemma eligibleEntry_locations:
  "eligibleEntry utils input study = Some e \<Longrightarrow>
     locations e = extractRelevantLocations utils study (location input) \<and> locations e \<noteq> []"
  by (auto simp: eligibleEntry_def Let_def split: option.splits if_splits)

lemma filterByEligibility_set:
  "e \<in> set (filterByEligibility utils ss input) \<longleftrightarrow>
     (\<exists>study \<in> set ss. eligibleEntry utils input study = Some e)"
  by (induction ss) (auto split: option.splits)

lemma filterByEligibility_length:
  "length (filterByEligibility utils ss input)
     = length (filter (passesEligibility utils input) ss)"
proof (induction ss)
  case Nil
  show ?case by simp
next
  case (Cons study rest)
  show ?case
  proof (cases "eligibleEntry utils input study")
    case None
    then have "\<not> passesEligibility utils input study"
      using eligibleEntry_passes[of utils input study] by simp
    with None Cons.IH show ?thesis by simp
  next
    case (Some e)
    then have "passesEligibility utils input study"
      using eligibleEntry_passes[of utils input study] by simp
    with Some Cons.IH show ?thesis by simp
  qed
qed

lemma sliceFromStart_set: "set (sliceFromStart xs e) \<subseteq> set xs"
  by (auto simp: sliceFromStart_def dest: in_set_takeD)

lemma sliceFromStart_length: "length (sliceFromStart xs e) \<le> length xs"
  by (simp add: sliceFromStart_def min_def)

lemma sliceFromStart_bound: "0 \<le> e \<Longrightarrow> int (length (sliceFromStart xs e)) \<le> e"
  by (simp add: sliceFromStart_def)

lemma serveAll_inv:
  "statefulInv app \<Longrightarrow> isStatefulMode app \<Longrightarrow> noStaleRun isInit app reqs \<Longrightarrow>
     statefulInv (serveAll isInit app reqs)"
proof (induction reqs arbitrary: app)
  case Nil
  then show ?case by (simp add: serveAll_def)
next
  case (Cons r reqs)
  obtain engine now req where r: "r = (engine, now, req)" by (cases r) auto
  from Cons.prems(3) r
  have hit: "noStaleHit app now (mcpSessionIdHeader req)"
    and rest: "noStaleRun isInit (snd (mcpEndpoint isInit engine now app req)) reqs"
    by simp_all
  have i: "statefulInv (snd (mcpEndpoint isInit engine now app req))"
    using Cons.prems(1,2) hit by (rule mcpEndpoint_inv)
  have m: "isStatefulMode (snd (mcpEndpoint isInit engine now app req))"
    using Cons.prems(2) by (simp add: mcpEndpoint_mode)
  from Cons.IH[OF i m rest] show ?case by (simp add: serveAll_def r)
qed

lemma onsessioninitialized_reg:
  "storeIdsRegistered app \<Longrightarrow> storeIdsRegistered (onsessioninitialized t ident now sid app)"
  by (auto simp: storeIdsRegistered_def onsessioninitialized_def getOrCreate_def Let_def
        split: option.splits)

lemma onsessionclosed_reg:
  "storeIdsRegistered app \<Longrightarrow> storeIdsRegistered (onsessionclosed sid app)"
  by (auto simp: storeIdsRegistered_def onsessionclosed_def terminate_def
        split: option.splits)

lemma fire_reg: "storeIdsRegistered app \<Longrightarrow> storeIdsRegistered (fire t now app ev)"
  by (cases ev)
     (auto simp: fire_def onsessioninitialized_reg onsessionclosed_reg
        split: transport_kind.splits)

lemma foldl_fire_reg:
  "storeIdsRegistered app \<Longrightarrow> storeIdsRegistered (foldl (fire t now) app evs)"
  by (induction evs arbitrary: app) (simp_all add: fire_reg)

lemma isValidForIdentity_dom:
  "dom (sessions (snd (isValidForIdentity store sid ident now))) \<subseteq> dom (sessions store)"
  by (auto simp: isValidForIdentity_def split: option.splits if_splits)

lemma getOrCreate_dom:
  "dom (sessions (snd (getOrCreate store sid ident now))) = insert sid (dom (sessions store))"
  by (auto simp: getOrCreate_def Let_def)

lemma resolve_reg:
  assumes "storeIdsRegistered app"
  shows "storeIdsRegistered
           (snd (resolveTransportForRequest isInit now app m sid ident payload))"
proof (cases "isStatefulMode app")
  case False
  with assms show ?thesis
    by (auto simp: resolveTransportForRequest_def createStatelessTransport_def
          storeIdsRegistered_def split: option.splits)
next
  case True
  show ?thesis
  proof (cases "sessionStore app")
    case None
    with True show ?thesis
      by (simp add: resolveTransportForRequest_def storeIdsRegistered_def)
  next
    case (Some store)
    with assms have sub: "dom (sessions store) \<subseteq> dom (sessionTransports app)"
      by (simp add: storeIdsRegistered_def)
    show ?thesis
    proof (cases "truthyValue sid")
      case None
      with True Some sub show ?thesis
        by (auto simp: resolveTransportForRequest_def createStatefulTransport_def
              storeIdsRegistered_def)
    next
      case (Some x)
      obtain valid store1 where v: "isValidForIdentity store x ident now = (valid, store1)"
        by (cases "isValidForIdentity store x ident now") auto
      from isValidForIdentity_dom[of store x ident now] v sub
      have sub1: "dom (sessions store1) \<subseteq> dom (sessionTransports app)" by auto
      have sub2: "dom (sessions (snd (getOrCreate store1 x ident now)))
                    \<subseteq> dom (sessionTransports app)"
        if "sessionTransports app x = Some t" for t
        using that sub1 by (auto simp: getOrCreate_dom)
      from True \<open>sessionStore app = Some store\<close> Some v sub1 sub2 show ?thesis
        by (auto simp: resolveTransportForRequest_def storeIdsRegistered_def
              split: option.splits)
    qed
  qed
qed

lemma handleRpc_reg:
  assumes "storeIdsRegistered app"
  shows "storeIdsRegistered (snd (handleRpc isInit engine now app m sid ident payload))"
proof -
  obtain res app1 where r: "resolveTransportForRequest isInit now app m sid ident payload
      = (res, app1)"
    by (cases "resolveTransportForRequest isInit now app m sid ident payload") auto
  from resolve_reg[OF assms, of isInit now m sid ident payload] r
  have i1: "storeIdsRegistered app1" by simp
  have cl: "storeIdsRegistered (closeTransport t a)" if "storeIdsRegistered a" for t a
    using that by (simp add: closeTransport_def storeIdsRegistered_def split: option.splits)
  show ?thesis
  proof (cases res)
    case (Inl e)
    with r i1 show ?thesis by (simp add: handleRpc_def)
  next
    case (Inr x)
    show ?thesis
    proof (cases x)
      case (Response status message)
      with Inr r i1 show ?thesis by (simp add: handleRpc_def)
    next
      case (Resolved t created)
      from Resolved Inr r i1 cl foldl_fire_reg[OF i1, of t now "engineEvents engine"]
      show ?thesis
        by (auto simp: handleRpc_def Let_def split: option.splits)
    qed
  qed
qed

lemma mcpEndpoint_reg:
  assumes "storeIdsRegistered app"
  shows "storeIdsRegistered (snd (mcpEndpoint isInit engine now app req))"
  using assms handleRpc_reg[OF assms]
  by (simp add: mcpEndpoint_def mcpHandler_def Let_def split: guard_outcome.splits)

lemma serveAll_reg:
  "storeIdsRegistered app \<Longrightarrow> storeIdsRegistered (serveAll isInit app reqs)"
proof (induction reqs arbitrary: app)
  case Nil
  then show ?case by (simp add: serveAll_def)
next
  case (Cons r reqs)
  obtain engine now req where r: "r = (engine, now, req)" by (cases r) auto
  from Cons.prems have "storeIdsRegistered (snd (mcpEndpoint isInit engine now app req))"
    by (rule mcpEndpoint_reg)
  from Cons.IH[OF this] show ?case by (simp add: serveAll_def r)
qed

text \<open>One half of the agreement holds on every run: a session id of the store always
  has a transport in the registry.\<close>

lemma store_ids_registered:
  "storeIdsRegistered (serveAll isInit (createHttpApp cfg) reqs)"
proof -
  have "storeIdsRegistered (createHttpApp cfg)"
    by (simp add: storeIdsRegistered_def createHttpApp_def Let_def)
  then show ?thesis by (rule serveAll_reg)
qed

lemma stale_request_response:
  "fst (mcpEndpoint exampleIsInitialize quietEngine 1002 exampleApp
          (sessionRequest ''GET'' ''abc''))
     = Inr (JsonError 404 ''Session not found or expired'')"
  by (simp add: exampleApp_eq mcpEndpoint_def originGuard_def exampleConfig_def
        sessionRequest_def mcpHandler_def extractSessionIdentity_def handleRpc_def
        resolveTransportForRequest_def truthyValue_def isValidForIdentity_def
        exampleStore_def isStale_def Let_def)

text \<open>What holds of the eligibility tool whatever the ranking helper does: the entries
  that the filter collects belong to studies that passed the checks and have a relevant
  location, \<open>totalMatches\<close> counts those studies, and the returned list is the ranked list
  cut to \<open>maxResults\<close> entries.\<close>

lemma filterByEligibility_entries:
  assumes "e \<in> set (filterByEligibility utils ss input)"
  shows "\<exists>study \<in> set ss. passesEligibility utils input study \<and>
           eligibleEntry utils input study = Some e \<and> locations e \<noteq> []"
proof -
  from assms obtain study where s: "study \<in> set ss" "eligibleEntry utils input study = Some e"
    unfolding filterByEligibility_set by blast
  from s(2) have "passesEligibility utils input study"
    using eligibleEntry_passes[of utils input study] by simp
  moreover from s(2) have "locations e \<noteq> []"
    using eligibleEntry_locations by blast
  ultimately show ?thesis using s by blast
qed

lemma findEligibleStudies_result:
  assumes "findEligibleStudies utils listStudies input = Inr out"
  shows "eligibleStudies out
           = sliceFromStart
               (rankStudies utils
                  (filterByEligibility utils (searchedStudies listStudies input) input))
               (maxResults input)"
    and "totalMatches out
           = length (filter (passesEligibility utils input) (searchedStudies listStudies input))"
    and "0 \<le> maxResults input \<Longrightarrow> int (length (eligibleStudies out)) \<le> maxResults input"
proof -
  from assms obtain page where page: "listStudies (searchParamsOf input) = Inr page"
    by (cases "listStudies (searchParamsOf input)") (auto simp: findEligibleStudies_def)
  have searched: "searchedStudies listStudies input = orElse (pagedStudies page) []"
    by (simp add: searchedStudies_def page)
  from assms page show ret: "eligibleStudies out
           = sliceFromStart
               (rankStudies utils
                  (filterByEligibility utils (searchedStudies listStudies input) input))
               (maxResults input)"
    by (auto simp: findEligibleStudies_def Let_def searched)
  from assms page show "totalMatches out
           = length (filter (passesEligibility utils input) (searchedStudies listStudies input))"
    by (auto simp: findEligibleStudies_def Let_def searched filterByEligibility_length)
  show "int (length (eligibleStudies out)) \<le> maxResults input" if "0 \<le> maxResults input"
    using that by (simp add: ret sliceFromStart_bound)
qed

section \<open>Claims\<close>

text \<open>
  C5. The claim has the launcher advance to \<open>port + 1\<close> on every occupied or failed
  attempt. The launcher does so for an occupied port and for a \<open>serve\<close> that throws, but
  not for a bind that fails once \<open>serve\<close> has returned: the promise is then already
  resolved. With every port probing as free and the bind on the configured port 3010
  failing with \<open>EADDRINUSE\<close> (another process took the port after the probe), the launcher
  resolves with the server made for 3010, which never listens, although port 3011 is
  free and three retries are allowed.
\<close>

theorem C5_port_bind_retry_failing_input:
  "startHttpServerWithRetry (\<lambda>port. Listening) raceOn3010 3010 3
     = BindResolved 3010 (Some ''EADDRINUSE'')
   \<and> isPortInUse (\<lambda>port. Listening) 3011 = Inr False
   \<and> raceOn3010 3011 = ServeReturns None"
  by (simp add: startHttpServerWithRetry_def tryBind_resolved isPortInUse_def raceOn3010_def)

text \<open>
  C4 as stated: the request continues if and only if the allow-list is empty or absent,
  the Origin header is absent, or the header is a member of the list. This fails for
  a header that is present with the empty string as its value: the guard's test
  \<open>origin && dnsProtectionEnabled\<close> is false for it, so the request continues although
  the list is configured and does not contain it.
\<close>

theorem C4_origin_guard_counterexample:
  "\<not> (originGuard (Some [''https://app.example'']) (Some []) = Continue \<longleftrightarrow>
        (listEmptyOrAbsent (Some [''https://app.example'']) \<or>
         Some [] = (None :: string option) \<or>
         headerListed (Some [''https://app.example'']) (Some [])))"
  by (simp add: originGuard_def truthy_def listEmptyOrAbsent_def headerListed_def)

text \<open>
  C4, amended. The request continues if and only if the allow-list is empty or absent,
  the Origin header is absent or empty, or the header is a member of the list; in every
  other case the guard answers 403 and the request is not processed further.
\<close>

theorem C4_origin_guard:
  "(originGuard L h = Continue \<longleftrightarrow>
      (listEmptyOrAbsent L \<or> h = None \<or> h = Some [] \<or> headerListed L h))
   \<and> (originGuard L h \<noteq> Continue \<longrightarrow>
        originGuard L h = Reject 403 ''Invalid origin. DNS rebinding protection.'')"
  by (auto simp: originGuard_def truthy_def listEmptyOrAbsent_def headerListed_def
        dnsProtectionEnabled_def allowedOriginsList_def Let_def
      split: option.splits if_splits)

theorem C4_origin_guard_witness:
  "originGuard (Some [''https://app.example'']) (Some ''https://evil.example'') \<noteq> Continue
   \<and> originGuard (Some [''https://app.example'']) (Some ''https://evil.example'')
       = Reject 403 ''Invalid origin. DNS rebinding protection.''
   \<and> originGuard (Some [''https://app.example'']) (Some ''https://app.example'') = Continue"
  using C4_origin_guard [of "Some [''https://app.example'']" "Some ''https://evil.example''"]
        C4_origin_guard [of "Some [''https://app.example'']" "Some ''https://app.example''"]
  by (simp add: listEmptyOrAbsent_def headerListed_def)

text \<open>
  C8. A call of \<open>shutdown\<close> while the flag is set returns at once and changes nothing, so
  of any sequence of calls only the first one proceeds: it sets the flag and exits with
  code 0 when every step it executes completes, and with code 1 when one of them throws.
\<close>

theorem C8_shutdown:
  "(isShuttingDown s \<longrightarrow> shutdown steps signal s = s)
   \<and> (\<not> isShuttingDown s \<longrightarrow>
        isShuttingDown (shutdown steps signal s) \<and>
        triggerEvents (shutdown steps signal s) = triggerEvents s @ [signal] \<and>
        exitCode (shutdown steps signal s) = Some (if cleanShutdown steps s then 0 else 1))
   \<and> (\<not> isShuttingDown s \<longrightarrow>
        shutdownAll s ((steps, signal) # later) = shutdown steps signal s)"
proof -
  have later_calls: "shutdown steps signal s = s" if "isShuttingDown s"
    using that by (simp add: shutdown_def)
  have first_call: "isShuttingDown (shutdown steps signal s) \<and>
        triggerEvents (shutdown steps signal s) = triggerEvents s @ [signal] \<and>
        exitCode (shutdown steps signal s) = Some (if cleanShutdown steps s then 0 else 1)"
    if "\<not> isShuttingDown s"
    using that by (simp add: shutdown_def cleanShutdown_def Let_def)
  have idle: "foldl (\<lambda>a (steps, signal). shutdown steps signal a) t calls = t"
    if "isShuttingDown t" for t calls
    using that by (induction calls arbitrary: t) (auto simp: shutdown_def)
  have sequence: "shutdownAll s ((steps, signal) # later) = shutdown steps signal s"
    if "\<not> isShuttingDown s"
    using idle[of "shutdown steps signal s" later] first_call[OF that]
    by (simp add: shutdownAll_def)
  from later_calls first_call sequence show ?thesis by blast
qed

theorem C8_shutdown_witness:
  "\<not> isShuttingDown \<lparr> isShuttingDown = False, serverIsRunning = True, exitCode = None,
                       triggerEvents = [] \<rparr>
   \<and> exitCode (shutdownAll
        \<lparr> isShuttingDown = False, serverIsRunning = True, exitCode = None, triggerEvents = [] \<rparr>
        [(\<lparr> stopThrows = False, shutdownOpenTelemetryThrows = False, loggerCloseThrows = False \<rparr>,
          ''SIGTERM''),
         (\<lparr> stopThrows = True, shutdownOpenTelemetryThrows = False, loggerCloseThrows = False \<rparr>,
          ''SIGINT'')]) = Some 0
   \<and> triggerEvents (shutdownAll
        \<lparr> isShuttingDown = False, serverIsRunning = True, exitCode = None, triggerEvents = [] \<rparr>
        [(\<lparr> stopThrows = False, shutdownOpenTelemetryThrows = False, loggerCloseThrows = False \<rparr>,
          ''SIGTERM''),
         (\<lparr> stopThrows = True, shutdownOpenTelemetryThrows = False, loggerCloseThrows = False \<rparr>,
          ''SIGINT'')]) = [''SIGTERM'']
   \<and> exitCode (shutdown
        \<lparr> stopThrows = True, shutdownOpenTelemetryThrows = False, loggerCloseThrows = False \<rparr>
        ''SIGINT''
        \<lparr> isShuttingDown = False, serverIsRunning = True, exitCode = None, triggerEvents = [] \<rparr>)
       = Some 1"
  using C8_shutdown [of
      "\<lparr> isShuttingDown = False, serverIsRunning = True, exitCode = None, triggerEvents = [] \<rparr>"
      "\<lparr> stopThrows = False, shutdownOpenTelemetryThrows = False, loggerCloseThrows = False \<rparr>"
      "''SIGTERM''"
      "[(\<lparr> stopThrows = True, shutdownOpenTelemetryThrows = False, loggerCloseThrows = False \<rparr>,
         ''SIGINT'')]"]
    C8_shutdown [of
      "\<lparr> isShuttingDown = False, serverIsRunning = True, exitCode = None, triggerEvents = [] \<rparr>"
      "\<lparr> stopThrows = True, shutdownOpenTelemetryThrows = False, loggerCloseThrows = False \<rparr>"
      "''SIGINT''" "[]"]
  by (simp add: cleanShutdown_def)

text \<open>
  C1. In stateful mode, for a request that presents a session id (a header value that
  is not empty): when the store rejects the id for the caller's identity the answer is
  404 \<open>Session not found or expired\<close>; when the store accepts it and no transport is
  registered for the id the answer is 404 as well; when the store accepts it and a
  transport is registered, that transport is returned with \<open>created = false\<close> and
  \<open>getOrCreate\<close> has been applied to the store for this id, so that the record's last
  access is the time of the request.
\<close>

theorem C1_presented_session:
  assumes "isStatefulMode app"
    and "sessionStore app = Some store"
    and "providedSessionId = Some sid" and "sid \<noteq> []"
    and "isValidForIdentity store sid ident now = (valid, store1)"
  shows "(\<not> valid \<longrightarrow>
            fst (resolveTransportForRequest isInit now app m providedSessionId ident payload)
              = Inr (Response 404 ''Session not found or expired''))
       \<and> (valid \<and> sessionTransports app sid = None \<longrightarrow>
            fst (resolveTransportForRequest isInit now app m providedSessionId ident payload)
              = Inr (Response 404 ''Session not found or expired''))
       \<and> (valid \<and> sessionTransports app sid = Some t \<longrightarrow>
            resolveTransportForRequest isInit now app m providedSessionId ident payload
              = (Inr (Resolved t False),
                 app\<lparr> sessionStore := Some (snd (getOrCreate store1 sid ident now)) \<rparr>)
            \<and> map_option lastAccessedAt
                 (sessions (snd (getOrCreate store1 sid ident now)) sid) = Some now)"
  using assms
  by (simp add: resolveTransportForRequest_def truthyValue_def getOrCreate_def Let_def
        split: option.splits)

theorem C1_presented_session_witness:
  "isStatefulMode exampleApp \<and> sessionStore exampleApp = Some exampleStore
   \<and> isValidForIdentity exampleStore ''abc'' None 5 = (True, exampleStore)
   \<and> isValidForIdentity exampleStore ''xyz'' None 5 = (False, exampleStore)
   \<and> fst (resolveTransportForRequest exampleIsInitialize 5 exampleApp ''GET'' (Some ''abc'')
             None None) = Inr (Resolved exampleTransport False)
   \<and> fst (resolveTransportForRequest exampleIsInitialize 5 exampleApp ''POST'' (Some ''xyz'')
             None (Some (JObj []))) = Inr (Response 404 ''Session not found or expired'')"
proof -
  have a: "isStatefulMode exampleApp" and b: "sessionStore exampleApp = Some exampleStore"
    and tr: "sessionTransports exampleApp ''abc'' = Some exampleTransport"
    by (simp_all add: exampleApp_eq)
  have v: "isValidForIdentity exampleStore ''abc'' None 5 = (True, exampleStore)"
    by (simp add: isValidForIdentity_def exampleStore_def isStale_def identityMatches_def)
  have w: "isValidForIdentity exampleStore ''xyz'' None 5 = (False, exampleStore)"
    by (simp add: isValidForIdentity_def exampleStore_def)
  from C1_presented_session [where isInit = exampleIsInitialize and m = "''GET''"
           and payload = None and t = exampleTransport, OF a b refl _ v]
       C1_presented_session [where isInit = exampleIsInitialize and m = "''POST''"
           and payload = "Some (JObj [])" and t = exampleTransport, OF a b refl _ w]
       a b v w tr
  show ?thesis by simp
qed

text \<open>
  C2. In stateful mode, for a request that presents no session id (the header is absent
  or empty): a method other than POST is answered with 400 and the demand for the
  session id header; a POST whose body is not an initialization payload is answered with
  400 \<open>Initialization request required ...\<close>; a POST whose body is one yields a new
  stateful transport with \<open>created = true\<close>, whose initialization callback registers the
  new session in both registries. A body is an initialization payload exactly when it is
  a truthy value that is an initialize envelope, or an array with such an element.
\<close>

theorem C2_no_session_id:
  assumes "isStatefulMode app"
    and "sessionStore app = Some store"
    and "providedSessionId = None \<or> providedSessionId = Some []"
  shows "(m \<noteq> ''POST'' \<longrightarrow>
            resolveTransportForRequest isInit now app m providedSessionId ident payload
              = (Inr (Response 400 ''Mcp-Session-Id header required for this request''), app))
       \<and> (m = ''POST'' \<and> \<not> isInitializationPayload isInit payload \<longrightarrow>
            resolveTransportForRequest isInit now app m providedSessionId ident payload
              = (Inr (Response 400
                   ''Initialization request required to create a new MCP session.''), app))
       \<and> (m = ''POST'' \<and> isInitializationPayload isInit payload \<longrightarrow>
            resolveTransportForRequest isInit now app m providedSessionId ident payload
              = (Inr (Resolved \<lparr> transportId = transportsCreated app, kind = Stateful ident \<rparr> True),
                 app\<lparr> transportsCreated := transportsCreated app + 1 \<rparr>)
            \<and> (\<forall>a sid. sessionStore a \<noteq> None \<longrightarrow>
                 sessionTransports
                   (fire \<lparr> transportId = transportsCreated app, kind = Stateful ident \<rparr> now a
                      (SessionInitialized sid)) sid
                   = Some \<lparr> transportId = transportsCreated app, kind = Stateful ident \<rparr>
                 \<and> (\<exists>store'. sessionStore
                       (fire \<lparr> transportId = transportsCreated app, kind = Stateful ident \<rparr> now a
                          (SessionInitialized sid)) = Some store'
                     \<and> sid \<in> dom (sessions store'))))
       \<and> (isInitializationPayload isInit payload \<longleftrightarrow>
            (\<exists>p. payload = Some p \<and> \<not> jsonFalsy p \<and>
                 (if \<exists>ms. p = JArr ms then \<exists>ms x. p = JArr ms \<and> x \<in> set ms \<and> isInit x
                  else isInit p)))"
proof -
  have none: "truthyValue providedSessionId = None"
    using assms(3) by (auto simp: truthyValue_def)
  have r1: "m \<noteq> ''POST'' \<longrightarrow>
            resolveTransportForRequest isInit now app m providedSessionId ident payload
              = (Inr (Response 400 ''Mcp-Session-Id header required for this request''), app)"
    using assms(1,2) none by (simp add: resolveTransportForRequest_def)
  have r2: "m = ''POST'' \<and> \<not> isInitializationPayload isInit payload \<longrightarrow>
            resolveTransportForRequest isInit now app m providedSessionId ident payload
              = (Inr (Response 400
                   ''Initialization request required to create a new MCP session.''), app)"
    using assms(1,2) none by (simp add: resolveTransportForRequest_def)
  have r3: "m = ''POST'' \<and> isInitializationPayload isInit payload \<longrightarrow>
            resolveTransportForRequest isInit now app m providedSessionId ident payload
              = (Inr (Resolved \<lparr> transportId = transportsCreated app, kind = Stateful ident \<rparr> True),
                 app\<lparr> transportsCreated := transportsCreated app + 1 \<rparr>)"
    using assms(1,2) none
    by (simp add: resolveTransportForRequest_def createStatefulTransport_def)
  have r4: "sessionTransports
                   (fire \<lparr> transportId = transportsCreated app, kind = Stateful ident \<rparr> now a
                      (SessionInitialized sid)) sid
                   = Some \<lparr> transportId = transportsCreated app, kind = Stateful ident \<rparr>
                 \<and> (\<exists>store'. sessionStore
                       (fire \<lparr> transportId = transportsCreated app, kind = Stateful ident \<rparr> now a
                          (SessionInitialized sid)) = Some store'
                     \<and> sid \<in> dom (sessions store'))"
    if "sessionStore a \<noteq> None" for a sid
    using that
    by (auto simp: fire_def onsessioninitialized_def getOrCreate_def Let_def)
  have r5: "isInitializationPayload isInit payload \<longleftrightarrow>
            (\<exists>p. payload = Some p \<and> \<not> jsonFalsy p \<and>
                 (if \<exists>ms. p = JArr ms then \<exists>ms x. p = JArr ms \<and> x \<in> set ms \<and> isInit x
                  else isInit p))"
    by (cases payload)
       (auto simp: isInitializationPayload_def list_ex_iff split: json.splits)
  from r1 r2 r3 r4 r5 show ?thesis by blast
qed

theorem C2_no_session_id_witness:
  "isStatefulMode exampleApp \<and> sessionStore exampleApp = Some exampleStore
   \<and> \<not> isInitializationPayload exampleIsInitialize (Some (JObj []))
   \<and> resolveTransportForRequest exampleIsInitialize 5 exampleApp ''POST'' None None
         (Some (JObj []))
       = (Inr (Response 400 ''Initialization request required to create a new MCP session.''),
          exampleApp)
   \<and> resolveTransportForRequest exampleIsInitialize 5 exampleApp ''GET'' None None None
       = (Inr (Response 400 ''Mcp-Session-Id header required for this request''), exampleApp)
   \<and> fst (resolveTransportForRequest exampleIsInitialize 5 exampleApp ''POST'' None None
         (Some (JArr [JObj [(''method'', JStr ''initialize'')]])))
       = Inr (Resolved \<lparr> transportId = 1, kind = Stateful None \<rparr> True)"
proof -
  have a: "isStatefulMode exampleApp" and b: "sessionStore exampleApp = Some exampleStore"
    and c: "transportsCreated exampleApp = 1"
    by (simp_all add: exampleApp_eq)
  have n: "\<not> isInitializationPayload exampleIsInitialize (Some (JObj []))"
    by (simp add: isInitializationPayload_def exampleIsInitialize_def)
  have y: "isInitializationPayload exampleIsInitialize
             (Some (JArr [JObj [(''method'', JStr ''initialize'')]]))"
    by (simp add: isInitializationPayload_def exampleIsInitialize_def)
  have d: "(None :: string option) = None \<or> (None :: string option) = Some []" by simp
  from C2_no_session_id [where m = "''POST''" and isInit = exampleIsInitialize
           and payload = "Some (JObj [])" and now = 5 and ident = None, OF a b d]
       C2_no_session_id [where m = "''GET''" and isInit = exampleIsInitialize
           and payload = None and now = 5 and ident = None, OF a b d]
       C2_no_session_id [where m = "''POST''" and isInit = exampleIsInitialize
           and payload = "Some (JArr [JObj [(''method'', JStr ''initialize'')]])"
           and now = 5 and ident = None, OF a b d]
       a b c n y
  show ?thesis by simp
qed

text \<open>
  C3. In stateless mode a DELETE is answered with 405 \<open>... not supported in stateless
  mode\<close> whatever session id it carries; every other method yields a transport
  constructed for this request, stateless, with \<open>created = true\<close>. Neither path reads
  or writes the session store: the outcome is the same for any store.
\<close>

theorem C3_stateless:
  assumes "\<not> isStatefulMode app"
  shows "(m = ''DELETE'' \<longrightarrow>
            resolveTransportForRequest isInit now app m providedSessionId ident payload
              = (Inr (Response 405 ''Session termination not supported in stateless mode''), app))
       \<and> (m \<noteq> ''DELETE'' \<longrightarrow>
            resolveTransportForRequest isInit now app m providedSessionId ident payload
              = (Inr (Resolved \<lparr> transportId = transportsCreated app, kind = Stateless \<rparr> True),
                 app\<lparr> transportsCreated := transportsCreated app + 1 \<rparr>))
       \<and> sessionStore
            (snd (resolveTransportForRequest isInit now app m providedSessionId ident payload))
           = sessionStore app
       \<and> fst (resolveTransportForRequest isInit now (app\<lparr> sessionStore := other \<rparr>) m
                 providedSessionId ident payload)
           = fst (resolveTransportForRequest isInit now app m providedSessionId ident payload)"
  using assms
  by (simp add: resolveTransportForRequest_def createStatelessTransport_def)

theorem C3_stateless_witness:
  "\<not> isStatefulMode (createHttpApp (exampleConfig\<lparr> mcpSessionMode := ''stateless'' \<rparr>))
   \<and> fst (resolveTransportForRequest exampleIsInitialize 5
            (createHttpApp (exampleConfig\<lparr> mcpSessionMode := ''stateless'' \<rparr>))
            ''DELETE'' None None None)
       = Inr (Response 405 ''Session termination not supported in stateless mode'')
   \<and> fst (resolveTransportForRequest exampleIsInitialize 5
            (createHttpApp (exampleConfig\<lparr> mcpSessionMode := ''stateless'' \<rparr>))
            ''POST'' (Some ''abc'') None (Some (JObj [])))
       = Inr (Resolved \<lparr> transportId = 0, kind = Stateless \<rparr> True)"
proof -
  have a: "\<not> isStatefulMode (createHttpApp (exampleConfig\<lparr> mcpSessionMode := ''stateless'' \<rparr>))"
    and c: "transportsCreated (createHttpApp (exampleConfig\<lparr> mcpSessionMode := ''stateless'' \<rparr>)) = 0"
    by (simp_all add: createHttpApp_def exampleConfig_def)
  from C3_stateless [where m = "''DELETE''" and isInit = exampleIsInitialize and now = 5
           and providedSessionId = None and ident = None and payload = None, OF a]
       C3_stateless [where m = "''POST''" and isInit = exampleIsInitialize and now = 5
           and providedSessionId = "Some ''abc''" and ident = None
           and payload = "Some (JObj [])", OF a]
       a c
  show ?thesis by simp
qed

text \<open>
  C6. The claim has the Transport Registry and the Session Store hold the same session
  ids at every point a request can observe. The callbacks keep them so: initialization
  adds an id to both, closure removes it from both. The path that answers a presented id
  the store rejects does not: when the store (as the specification describes it) evicts
  a stale record during the validity check, the request is answered 404 and the transport
  of that id stays in the registry. The run below initializes session \<open>abc\<close> at time 0 and
  presents it again at time 1002, with a stale timeout of 1000: afterwards the registry
  has \<open>abc\<close>, the store has no record of it, and the registries disagree.
\<close>

theorem C6_registries_agree_failing_input:
  "fst (mcpEndpoint exampleIsInitialize quietEngine 1002
          (serveAll exampleIsInitialize (createHttpApp exampleConfig)
             [(initializingEngine, 0, initializeRequest)])
          (sessionRequest ''GET'' ''abc''))
     = Inr (JsonError 404 ''Session not found or expired'')
   \<and> sessionTransports
       (serveAll exampleIsInitialize (createHttpApp exampleConfig)
          [(initializingEngine, 0, initializeRequest),
           (quietEngine, 1002, sessionRequest ''GET'' ''abc'')]) ''abc''
       = Some exampleTransport
   \<and> sessionStore
       (serveAll exampleIsInitialize (createHttpApp exampleConfig)
          [(initializingEngine, 0, initializeRequest),
           (quietEngine, 1002, sessionRequest ''GET'' ''abc'')])
       = Some (exampleStore\<lparr> sessions := Map.empty \<rparr>)
   \<and> \<not> registriesAgree
       (serveAll exampleIsInitialize (createHttpApp exampleConfig)
          [(initializingEngine, 0, initializeRequest),
           (quietEngine, 1002, sessionRequest ''GET'' ''abc'')])"
proof -
  have first: "serveAll exampleIsInitialize (createHttpApp exampleConfig)
             [(initializingEngine, 0, initializeRequest)] = exampleApp"
    by (simp add: serveAll_def exampleApp_def)
  have response: "fst (mcpEndpoint exampleIsInitialize quietEngine 1002
          (serveAll exampleIsInitialize (createHttpApp exampleConfig)
             [(initializingEngine, 0, initializeRequest)])
          (sessionRequest ''GET'' ''abc''))
     = Inr (JsonError 404 ''Session not found or expired'')"
    by (simp only: first stale_request_response)
  have after: "sessionTransports
       (serveAll exampleIsInitialize (createHttpApp exampleConfig)
          [(initializingEngine, 0, initializeRequest),
           (quietEngine, 1002, sessionRequest ''GET'' ''abc'')]) ''abc''
       = Some exampleTransport
   \<and> sessionStore
       (serveAll exampleIsInitialize (createHttpApp exampleConfig)
          [(initializingEngine, 0, initializeRequest),
           (quietEngine, 1002, sessionRequest ''GET'' ''abc'')])
       = Some (exampleStore\<lparr> sessions := Map.empty \<rparr>)
   \<and> \<not> registriesAgree
       (serveAll exampleIsInitialize (createHttpApp exampleConfig)
          [(initializingEngine, 0, initializeRequest),
           (quietEngine, 1002, sessionRequest ''GET'' ''abc'')])"
    by (simp add: evicting_run registriesAgree_def exampleApp_eq)
  from response after show ?thesis by (rule conjI)
qed

text \<open>
  C7. In stateless mode, after any sequence of requests and whatever the engine does,
  there is no Session Store, the Transport Registry is empty (its size is 0 between
  requests), and every transport constructed so far has had \<open>close()\<close> called on it, once
  and in order of construction. A request that is not a DELETE is given a transport
  that did not exist before, which is never put into the registry and is closed when the
  request has been handled, also when the engine throws.
\<close>

theorem C7_stateless_no_persistence:
  assumes "mcpSessionMode cfg \<noteq> ''stateful''"
  shows "sessionStore (serveAll isInit (createHttpApp cfg) reqs) = None
       \<and> sessionTransports (serveAll isInit (createHttpApp cfg) reqs) = Map.empty
       \<and> card (dom (sessionTransports (serveAll isInit (createHttpApp cfg) reqs))) = 0
       \<and> closeCalls (serveAll isInit (createHttpApp cfg) reqs)
           = [0..<transportsCreated (serveAll isInit (createHttpApp cfg) reqs)]
       \<and> (statelessInv app \<and> m \<noteq> ''DELETE'' \<longrightarrow>
            fst (resolveTransportForRequest isInit now app m sid ident payload)
              = Inr (Resolved \<lparr> transportId = transportsCreated app, kind = Stateless \<rparr> True)
            \<and> transportsCreated app \<notin> set (closeCalls app)
            \<and> sessionTransports (snd (handleRpc isInit engine now app m sid ident payload))
                = Map.empty
            \<and> closeCalls (snd (handleRpc isInit engine now app m sid ident payload))
                = closeCalls app @ [transportsCreated app])"
proof -
  from createHttpApp_stateless[OF assms]
  have "statelessInv (serveAll isInit (createHttpApp cfg) reqs)"
    by (rule serveAll_stateless)
  then have run: "sessionStore (serveAll isInit (createHttpApp cfg) reqs) = None
       \<and> sessionTransports (serveAll isInit (createHttpApp cfg) reqs) = Map.empty
       \<and> card (dom (sessionTransports (serveAll isInit (createHttpApp cfg) reqs))) = 0
       \<and> closeCalls (serveAll isInit (createHttpApp cfg) reqs)
           = [0..<transportsCreated (serveAll isInit (createHttpApp cfg) reqs)]"
    by (simp add: statelessInv_def)
  have one: "fst (resolveTransportForRequest isInit now app m sid ident payload)
              = Inr (Resolved \<lparr> transportId = transportsCreated app, kind = Stateless \<rparr> True)
            \<and> transportsCreated app \<notin> set (closeCalls app)
            \<and> sessionTransports (snd (handleRpc isInit engine now app m sid ident payload))
                = Map.empty
            \<and> closeCalls (snd (handleRpc isInit engine now app m sid ident payload))
                = closeCalls app @ [transportsCreated app]"
    if "statelessInv app \<and> m \<noteq> ''DELETE''"
    using that
    by (simp add: handleRpc_def resolveTransportForRequest_def statelessInv_def
          createStatelessTransport_def fire_stateless closeTransport_def Let_def
        split: option.splits)
  from run one show ?thesis by blast
qed

theorem C7_stateless_no_persistence_witness:
  "mcpSessionMode (exampleConfig\<lparr> mcpSessionMode := ''stateless'' \<rparr>) \<noteq> ''stateful''
   \<and> statelessInv (createHttpApp (exampleConfig\<lparr> mcpSessionMode := ''stateless'' \<rparr>))
   \<and> sessionTransports
        (serveAll exampleIsInitialize
           (createHttpApp (exampleConfig\<lparr> mcpSessionMode := ''stateless'' \<rparr>))
           [(initializingEngine, 0, initializeRequest)]) = Map.empty
   \<and> closeCalls
        (snd (handleRpc exampleIsInitialize initializingEngine 0
           (createHttpApp (exampleConfig\<lparr> mcpSessionMode := ''stateless'' \<rparr>))
           ''POST'' None None (Some (JObj [(''method'', JStr ''initialize'')])))) = [0]"
proof -
  have m: "mcpSessionMode (exampleConfig\<lparr> mcpSessionMode := ''stateless'' \<rparr>) \<noteq> ''stateful''"
    by simp
  have i: "statelessInv (createHttpApp (exampleConfig\<lparr> mcpSessionMode := ''stateless'' \<rparr>))"
    by (simp add: statelessInv_def createHttpApp_def)
  have c: "closeCalls (createHttpApp (exampleConfig\<lparr> mcpSessionMode := ''stateless'' \<rparr>)) = []"
    and n: "transportsCreated (createHttpApp (exampleConfig\<lparr> mcpSessionMode := ''stateless'' \<rparr>)) = 0"
    by (simp_all add: createHttpApp_def)
  from C7_stateless_no_persistence [OF m,
         where app = "createHttpApp (exampleConfig\<lparr> mcpSessionMode := ''stateless'' \<rparr>)"
         and m = "''POST''" and isInit = exampleIsInitialize
         and reqs = "[(initializingEngine, 0, initializeRequest)]"
         and now = 0 and sid = None and ident = None and engine = initializingEngine
         and payload = "Some (JObj [(''method'', JStr ''initialize'')])"] m i c n
  show ?thesis by simp
qed

text \<open>
  C9. The tool raises its error exactly when its \<open>studies\<close> list is empty and its
  \<open>errors\<close> list is not, which for the non-empty id lists that the input schema admits
  is: exactly when the fetch of every requested id fails. In every other case it returns
  the items of the fetches that succeeded, each the summary of its study when
  \<open>summaryOnly\<close> is set and the full study otherwise; the field \<open>errors\<close> is present
  exactly when the fetch of some id failed; and every requested id is accounted for, by
  an item of \<open>studies\<close> or by an entry of \<open>errors\<close>, the two lists together having one
  element per requested id.
\<close>

theorem C9_get_study:
  "((\<exists>e. getStudy f t input = Inl e) \<longleftrightarrow>
      (requestedIds input \<noteq> [] \<and>
       (\<forall>i<length (requestedIds input). isl (f i (requestedIds input ! i)))))
   \<and> (getStudy f t input = Inr out \<longrightarrow>
        (errors out \<noteq> None \<longleftrightarrow>
           (\<exists>i<length (requestedIds input). isl (f i (requestedIds input ! i))))
        \<and> (\<forall>i<length (requestedIds input). accountedFor f input out i)
        \<and> (\<forall>x \<in> set (studies out). \<exists>i<length (requestedIds input). \<exists>study.
              f i (requestedIds input ! i) = Inr study \<and>
              x = studyItem (summaryOnly input) study)
        \<and> length (studies out) + length (errorList out) = length (requestedIds input))"
proof -
  define ids where "ids = requestedIds input"
  define rs where "rs = sort_key (\<lambda>request. t (fst request)) (zip [0..<length ids] ids)"
  define S where "S = successes f (summaryOnly input) rs"
  define F where "F = failures f rs"
  have pos: "(i, nid) \<in> set rs \<longleftrightarrow> i < length ids \<and> nid = ids ! i" for i nid
    unfolding rs_def by (rule positions_set)
  have len: "length S + length F = length ids"
    unfolding S_def F_def by (simp add: successes_failures_length rs_def)
  have S_empty: "S = [] \<longleftrightarrow> (\<forall>i<length ids. isl (f i (ids ! i)))"
    unfolding S_def successes_empty rs_def by (rule all_positions)
  have F_empty: "F = [] \<longleftrightarrow> (\<forall>i<length ids. \<not> isl (f i (ids ! i)))"
    unfolding F_def failures_empty rs_def by (rule all_positions)
  have g: "getStudy f t input =
      (if S = [] \<and> F \<noteq> []
       then Inl (ServiceUnavailable
              (''Failed to fetch any studies. Errors: '' @
                 join ''; '' (map (\<lambda>e. fst e @ '': '' @ snd e) F)) F)
       else Inr \<lparr> studies = S, errors = (if F \<noteq> [] then Some F else None) \<rparr>)"
    unfolding S_def F_def rs_def ids_def by (simp add: getStudy_eq Let_def)
  have raise: "(\<exists>e. getStudy f t input = Inl e) \<longleftrightarrow>
      (ids \<noteq> [] \<and> (\<forall>i<length ids. isl (f i (ids ! i))))"
  proof -
    have "(\<exists>e. getStudy f t input = Inl e) \<longleftrightarrow> (S = [] \<and> F \<noteq> [])"
      by (simp add: g)
    also have "\<dots> \<longleftrightarrow> (S = [] \<and> ids \<noteq> [])"
      using len by auto
    also have "\<dots> \<longleftrightarrow> (ids \<noteq> [] \<and> (\<forall>i<length ids. isl (f i (ids ! i))))"
      using S_empty by auto
    finally show ?thesis .
  qed
  have ret: "(errors out \<noteq> None \<longleftrightarrow> (\<exists>i<length ids. isl (f i (ids ! i))))
        \<and> (\<forall>i<length ids. accountedFor f input out i)
        \<and> (\<forall>x \<in> set (studies out). \<exists>i<length ids. \<exists>study.
              f i (ids ! i) = Inr study \<and> x = studyItem (summaryOnly input) study)
        \<and> length (studies out) + length (errorList out) = length ids"
    if r: "getStudy f t input = Inr out"
  proof -
    from r g have out: "out = \<lparr> studies = S, errors = (if F \<noteq> [] then Some F else None) \<rparr>"
      by (simp split: if_splits)
    then have st: "studies out = S" and el: "errorList out = F"
      by (simp_all add: errorList_def)
    have e: "errors out \<noteq> None \<longleftrightarrow> (\<exists>i<length ids. isl (f i (ids ! i)))"
      using out F_empty by auto
    have acc: "accountedFor f input out i" if i: "i < length ids" for i
    proof (cases "f i (ids ! i)")
      case (Inl er)
      with i pos[of i "ids ! i"] have "(ids ! i, errorMessage er) \<in> set F"
        unfolding F_def failures_set by blast
      with Inl show ?thesis
        by (simp add: accountedFor_def el ids_def[symmetric])
    next
      case (Inr study)
      with i pos[of i "ids ! i"]
      have "studyItem (summaryOnly input) study \<in> set S"
        unfolding S_def successes_set by blast
      with Inr show ?thesis
        by (simp add: accountedFor_def st ids_def[symmetric])
    qed
    have src: "\<exists>i<length ids. \<exists>study.
              f i (ids ! i) = Inr study \<and> x = studyItem (summaryOnly input) study"
      if "x \<in> set (studies out)" for x
    proof -
      from that st have "x \<in> set (successes f (summaryOnly input) rs)"
        by (simp add: S_def)
      then obtain i nid study where "(i, nid) \<in> set rs" "f i nid = Inr study"
        "x = studyItem (summaryOnly input) study"
        unfolding successes_set by blast
      with pos[of i nid] show ?thesis by blast
    qed
    from e acc src len st el show ?thesis by auto
  qed
  from raise ret show ?thesis unfolding ids_def by blast
qed

theorem C9_get_study_witness:
  "getStudy exampleFetch (\<lambda>i. 0) exampleGetStudyInput = Inr exampleGetStudyOutput
   \<and> errors exampleGetStudyOutput \<noteq> None
   \<and> accountedFor exampleFetch exampleGetStudyInput exampleGetStudyOutput 1
   \<and> length (studies exampleGetStudyOutput) + length (errorList exampleGetStudyOutput)
       = length (requestedIds exampleGetStudyInput)"
proof -
  have ev: "getStudy exampleFetch (\<lambda>i. 0) exampleGetStudyInput = Inr exampleGetStudyOutput"
    by (simp add: getStudy_def settleAll_def settleOne_def exampleFetch_def
          exampleGetStudyInput_def exampleGetStudyOutput_def errorMessage_def upt_rec)
  have l: "(1::nat) < length (requestedIds exampleGetStudyInput)"
    and f: "isl (exampleFetch 1 (requestedIds exampleGetStudyInput ! 1))"
    by (simp_all add: requestedIds_def exampleGetStudyInput_def exampleFetch_def)
  from C9_get_study [where f = exampleFetch and t = "\<lambda>i. 0" and input = exampleGetStudyInput
         and out = exampleGetStudyOutput] ev l f
  show ?thesis by blast
qed

end
